theory Spec2Isabelle
  imports Complex_Main "HOL-Library.Product_Lexorder" "HOL-Library.Multiset"
begin

section \<open>Data model\<close>

text \<open>
  The Python module \<^verbatim>\<open>definitions/datasets/kagglebirds2020/__init__.py\<close> builds a chain of
  dataset wrappers over NumPy arrays. An array is modelled by its element type tag, its
  shape and its elements in row-major order; elements are exact real numbers, so rounding
  of floating-point arithmetic is outside the model. Exceptions are values of \<open>error\<close>.
\<close>

datatype error =
  KeyError | IndexError | ValueError | TypeError | AttributeError | StopIteration

datatype np_dtype =
  np_bool | np_uint8 | np_int16 | np_int32 | np_int64 | np_uint64 | np_float32 | np_float64
  | py_str

record ndarray =
  dtype :: np_dtype
  shape :: "nat list"
  data :: "real list"

text \<open>A field of an item is an array (possibly 0-dimensional) or a Python string.\<close>

datatype pyval = Array ndarray | Str string

type_synonym item = "string \<rightharpoonup> pyval"

text \<open>
  The global generator \<^verbatim>\<open>np.random\<close> is a tape of draws: call number \<open>k\<close> reads
  \<open>g k\<close>, and the rest of the tape is handed on. A well-formed tape holds values of
  the half-open unit interval, as \<^verbatim>\<open>np.random.rand()\<close> returns them.
\<close>

type_synonym rng = "nat \<Rightarrow> real"

definition rng_ok :: "rng \<Rightarrow> bool" where
  "rng_ok g = (\<forall>i. 0 \<le> g i \<and> g i < 1)"

definition advance :: "rng \<Rightarrow> rng" where
  "advance g = (\<lambda>i. g (Suc i))"

definition random_rand :: "rng \<Rightarrow> real \<times> rng" where
  "random_rand g = (g 0, advance g)"

text \<open>\<^verbatim>\<open>np.random.randint(high)\<close>: an integer of \<open>[0, high)\<close>; ValueError when \<open>high \<le> 0\<close>.\<close>

definition random_randint :: "nat \<Rightarrow> rng \<Rightarrow> error + (nat \<times> rng)" where
  "random_randint high g =
     (if high = 0 then Inl ValueError
      else Inr (nat \<lfloor>g 0 * real high\<rfloor>, advance g))"

text \<open>
  The dataset contract: the schema (\<open>shapes\<close> with \<open>None\<close> for an axis of varying
  size, \<open>dtypes\<close>), the two counts, and random access. Access may draw random numbers.
  The base class \<^verbatim>\<open>Dataset\<close> is imported from the parent package; \<^verbatim>\<open>len(dataset)\<close> is
  taken to be the \<^verbatim>\<open>num_items\<close> it was constructed with. Indices are natural numbers.
\<close>

record dataset =
  shapes :: "string \<rightharpoonup> nat option list"
  dtypes :: "string \<rightharpoonup> np_dtype"
  num_classes :: nat
  num_items :: nat
  getitem :: "nat \<Rightarrow> rng \<Rightarrow> error + (item \<times> rng)"

section \<open>Array primitives\<close>

definition row_size :: "nat list \<Rightarrow> nat" where
  "row_size rest = prod_list rest"

definition np_zeros :: "nat list \<Rightarrow> np_dtype \<Rightarrow> ndarray" where
  "np_zeros shp dt = \<lparr>dtype = dt, shape = shp, data = replicate (prod_list shp) 0\<rparr>"

text \<open>\<^verbatim>\<open>len(x)\<close>: the first axis of an array (TypeError for a 0-d array), the length of a string.\<close>

definition py_len :: "pyval \<Rightarrow> error + nat" where
  "py_len v =
     (case v of
        Str s \<Rightarrow> Inr (length s)
      | Array a \<Rightarrow> (case shape a of [] \<Rightarrow> Inl TypeError | n # rest \<Rightarrow> Inr n))"

text \<open>\<^verbatim>\<open>x[start:stop]\<close> for non-negative bounds, which Python clamps to the length.\<close>

definition slice0 :: "pyval \<Rightarrow> nat \<Rightarrow> nat \<Rightarrow> error + pyval" where
  "slice0 v start stop =
     (case v of
        Str s \<Rightarrow> Inr (Str (take (min stop (length s) - min start (length s))
                              (drop (min start (length s)) s)))
      | Array a \<Rightarrow>
          (case shape a of
             [] \<Rightarrow> Inl IndexError
           | n # rest \<Rightarrow>
               let lo = min start n; hi = min stop n
               in Inr (Array (a\<lparr>shape := (hi - lo) # rest,
                                data := take ((hi - lo) * row_size rest)
                                          (drop (lo * row_size rest) (data a))\<rparr>))))"

text \<open>\<^verbatim>\<open>np.tile(array, (factor, 1, ..., 1))\<close>: repetition along the first axis.\<close>

definition np_tile0 :: "ndarray \<Rightarrow> nat \<Rightarrow> ndarray" where
  "np_tile0 a factor =
     a\<lparr>shape := (case shape a of [] \<Rightarrow> [] | n # rest \<Rightarrow> (factor * n) # rest),
       data := concat (replicate factor (data a))\<rparr>"

text \<open>
  \<^verbatim>\<open>np.concatenate((a, b))\<close> along the first axis. Its only use joins an array with a slice
  of itself, so the trailing axes and element types agree.
\<close>

definition np_concatenate0 :: "ndarray \<Rightarrow> ndarray \<Rightarrow> ndarray" where
  "np_concatenate0 a b =
     a\<lparr>shape := (case (shape a, shape b) of
                    (n # rest, m # rest') \<Rightarrow> (n + m) # rest
                  | (s, s') \<Rightarrow> s),
       data := data a @ data b\<rparr>"

section \<open>Looping and cropping\<close>

text \<open>
  \<^verbatim>\<open>loop(array, length)\<close>; the target length is \<open>len\<close> below, a natural number. A
  string shorter than the target becomes a 0-d array under \<^verbatim>\<open>np.asanyarray\<close>, whose
  \<^verbatim>\<open>len\<close> raises.
\<close>

definition loop :: "pyval \<Rightarrow> nat \<Rightarrow> error + pyval" where
  "loop array len =
     (case array of
        Str s \<Rightarrow> (if length s < len then Inl TypeError else Inr array)
      | Array a \<Rightarrow>
          (case shape a of
             [] \<Rightarrow> Inl TypeError
           | n # rest \<Rightarrow>
               if n < len then
                 (if n = 0 then Inr (Array (np_zeros (len # rest) (dtype a)))
                  else
                    let factor = len div n;
                        a1 = (if factor > 1 then np_tile0 a factor else a)
                    in (case py_len (Array a1) of
                          Inl e \<Rightarrow> Inl e
                        | Inr n1 \<Rightarrow>
                            let missing = len - n1
                            in if missing \<noteq> 0 then
                                 (case slice0 (Array a1) 0 missing of
                                    Inl e \<Rightarrow> Inl e
                                  | Inr (Array part) \<Rightarrow> Inr (Array (np_concatenate0 a1 part))
                                  | Inr (Str s) \<Rightarrow> Inl TypeError)
                               else Inr (Array a1)))
               else Inr array))"

text \<open>\<^verbatim>\<open>crop(array, length, deterministic)\<close>; the random position is one draw of the tape.\<close>

definition crop :: "pyval \<Rightarrow> nat \<Rightarrow> bool \<Rightarrow> rng \<Rightarrow> error + (pyval \<times> rng)" where
  "crop array len deterministic g =
     (case py_len array of
        Inl e \<Rightarrow> Inl e
      | Inr l \<Rightarrow>
          if l > len then
            (if \<not> deterministic then
               (case random_randint (l - len + 1) g of
                  Inl e \<Rightarrow> Inl e
                | Inr (pos, g') \<Rightarrow>
                    (case slice0 array pos (pos + len) of
                       Inl e \<Rightarrow> Inl e
                     | Inr w \<Rightarrow> Inr (w, g')))
             else
               (case slice0 array ((l - len) div 2) ((l + len) div 2) of
                  Inl e \<Rightarrow> Inl e
                | Inr w \<Rightarrow> Inr (w, g)))
          else Inr (array, g))"

section \<open>FixedSizeExcerpts\<close>

text \<open>\<^verbatim>\<open>FixedSizeExcerpts.__getitem__\<close> over the upstream dataset \<open>ds\<close>.\<close>

definition FixedSizeExcerpts_getitem ::
  "dataset \<Rightarrow> nat \<Rightarrow> bool \<Rightarrow> string \<Rightarrow> nat \<Rightarrow> rng \<Rightarrow> error + (item \<times> rng)" where
  "FixedSizeExcerpts_getitem ds len deterministic key idx g =
     (case getitem ds idx g of
        Inl e \<Rightarrow> Inl e
      | Inr (item, g1) \<Rightarrow>
          (case item key of
             None \<Rightarrow> Inl KeyError
           | Some d \<Rightarrow>
               (case py_len d of
                  Inl e \<Rightarrow> Inl e
                | Inr n \<Rightarrow>
                    if n < len then
                      (case loop d len of
                         Inl e \<Rightarrow> Inl e
                       | Inr d' \<Rightarrow> Inr (item(key \<mapsto> d'), g1))
                    else if n > len then
                      (case crop d len deterministic g1 of
                         Inl e \<Rightarrow> Inl e
                       | Inr (d', g2) \<Rightarrow> Inr (item(key \<mapsto> d'), g2))
                    else Inr (item(key \<mapsto> d), g1))))"

text \<open>\<^verbatim>\<open>FixedSizeExcerpts.__init__\<close>: the schema of the wrapper.\<close>

definition FixedSizeExcerpts ::
  "dataset \<Rightarrow> nat \<Rightarrow> bool \<Rightarrow> string \<Rightarrow> error + dataset" where
  "FixedSizeExcerpts ds len deterministic key =
     (case shapes ds key of
        None \<Rightarrow> Inl KeyError
      | Some s \<Rightarrow>
          Inr \<lparr>shapes = (shapes ds)(key \<mapsto> Some len # tl s),
               dtypes = dtypes ds,
               num_classes = num_classes ds,
               num_items = num_items ds,
               getitem = FixedSizeExcerpts_getitem ds len deterministic key\<rparr>)"

text \<open>
  Specification of a crop: the contiguous window of \<open>len\<close> rows of \<open>a\<close> that starts at
  row \<open>pos\<close>.
\<close>

definition window :: "ndarray \<Rightarrow> nat \<Rightarrow> nat \<Rightarrow> ndarray" where
  "window a pos len =
     a\<lparr>shape := len # tl (shape a),
       data := take (len * row_size (tl (shape a))) (drop (pos * row_size (tl (shape a))) (data a))\<rparr>"

text \<open>A one-item dataset holding the value \<open>v\<close> under \<^verbatim>\<open>input\<close>, for concrete runs.\<close>

definition example_leaf :: "pyval \<Rightarrow> dataset" where
  "example_leaf v =
     \<lparr>shapes = [''input'' \<mapsto> [None]], dtypes = [''input'' \<mapsto> np_int16],
      num_classes = 0, num_items = 1,
      getitem = (\<lambda>idx g. if idx = 0 then Inr ([''input'' \<mapsto> v], g) else Inl IndexError)\<rparr>"

section \<open>Arithmetic on arrays\<close>

text \<open>
  The element type of \<^verbatim>\<open>np.mean\<close>: a floating array keeps its type, every other array is
  averaged in \<^verbatim>\<open>float64\<close>.
\<close>

definition float_result :: "np_dtype \<Rightarrow> np_dtype" where
  "float_result d = (if d = np_float32 then np_float32 else np_float64)"

text \<open>
  The element type of \<^verbatim>\<open>c * array\<close> for a Python float or a \<^verbatim>\<open>float64\<close> scalar \<open>c\<close>, under
  the value-based promotion of the NumPy versions that still have \<^verbatim>\<open>np.int\<close> (before 1.24).
  An array without axes counts as a scalar, and two scalars are promoted by their types
  alone: the product is \<^verbatim>\<open>float64\<close>, also for a \<^verbatim>\<open>float32\<close> operand. Against an array of
  at least one axis the scalar counts with the smallest floating type that holds its
  value, so that a \<^verbatim>\<open>float32\<close> array stays \<^verbatim>\<open>float32\<close> as long as \<open>c\<close> is in the range of
  \<^verbatim>\<open>float32\<close>; an array of any other type becomes \<^verbatim>\<open>float64\<close>.
\<close>

definition float32_max :: real where
  "float32_max = (2 - 1 / 2 ^ 23) * 2 ^ 127"

definition scale_dtype :: "real \<Rightarrow> ndarray \<Rightarrow> np_dtype" where
  "scale_dtype c a =
     (if shape a \<noteq> [] \<and> dtype a = np_float32 \<and> \<bar>c\<bar> \<le> float32_max then np_float32
      else np_float64)"

text \<open>\<^verbatim>\<open>np.promote_types\<close> on the element types of the model.\<close>

definition promote_types :: "np_dtype \<Rightarrow> np_dtype \<Rightarrow> np_dtype" where
  "promote_types a b =
     (if a = b then a
      else if a = np_bool then b
      else if b = np_bool then a
      else if a = py_str \<or> b = py_str then py_str
      else if a = np_float64 \<or> b = np_float64 then np_float64
      else if a = np_float32 then (if b = np_uint8 \<or> b = np_int16 then np_float32 else np_float64)
      else if b = np_float32 then (if a = np_uint8 \<or> a = np_int16 then np_float32 else np_float64)
      else if a = np_uint64 then (if b = np_uint8 then np_uint64 else np_float64)
      else if b = np_uint64 then (if a = np_uint8 then np_uint64 else np_float64)
      else if a = np_int64 \<or> b = np_int64 then np_int64
      else if a = np_int32 \<or> b = np_int32 then np_int32
      else np_int16)"

text \<open>The element type of \<^verbatim>\<open>array.sum(axis)\<close>: small integers are summed in 64 bits.\<close>

definition sum_dtype :: "np_dtype \<Rightarrow> np_dtype" where
  "sum_dtype d =
     (if d = np_bool \<or> d = np_int16 \<or> d = np_int32 then np_int64
      else if d = np_uint8 then np_uint64
      else d)"

text \<open>\<^verbatim>\<open>x.astype(d)\<close> on one element: truncation for integer types, a truth value for bool.\<close>

definition astype_elem :: "np_dtype \<Rightarrow> real \<Rightarrow> real" where
  "astype_elem d x =
     (if d = np_bool then (if x \<noteq> 0 then 1 else 0)
      else if d = np_float32 \<or> d = np_float64 \<or> d = py_str then x
      else of_int (if 0 \<le> x then \<lfloor>x\<rfloor> else \<lceil>x\<rceil>))"

text \<open>Row-major positions: from a flat position to the index tuple and back.\<close>

fun unravel :: "nat list \<Rightarrow> nat \<Rightarrow> nat list" where
  "unravel [] k = []"
| "unravel (d # ds) k = (k div prod_list ds) mod d # unravel ds (k mod prod_list ds)"

fun ravel :: "nat list \<Rightarrow> nat list \<Rightarrow> nat" where
  "ravel (d # ds) (i # is) = i * prod_list ds + ravel ds is"
| "ravel ds is = 0"

text \<open>NumPy broadcasting of two shapes, aligned at the last axis.\<close>

fun broadcast_rev :: "nat list \<Rightarrow> nat list \<Rightarrow> nat list option" where
  "broadcast_rev [] ys = Some ys"
| "broadcast_rev xs [] = Some xs"
| "broadcast_rev (x # xs) (y # ys) =
     (if x = y \<or> y = 1 then map_option ((#) x) (broadcast_rev xs ys)
      else if x = 1 then map_option ((#) y) (broadcast_rev xs ys)
      else None)"

definition broadcast_shapes :: "nat list \<Rightarrow> nat list \<Rightarrow> nat list option" where
  "broadcast_shapes s1 s2 = map_option rev (broadcast_rev (rev s1) (rev s2))"

definition broadcast_to :: "ndarray \<Rightarrow> nat list \<Rightarrow> real list" where
  "broadcast_to a target =
     map (\<lambda>k. data a !
                ravel (shape a)
                  (map2 (\<lambda>d i. if d = 1 then 0 else i) (shape a)
                     (drop (length target - length (shape a)) (unravel target k))))
       [0..<prod_list target]"

text \<open>
  The element type of \<^verbatim>\<open>a + b\<close>. Two arrays with axes, and two without, are promoted by
  their types. When exactly one operand has no axes it counts as a scalar: a floating
  scalar against a \<^verbatim>\<open>float32\<close> array gives \<^verbatim>\<open>float32\<close> as long as its value is in the range
  of \<^verbatim>\<open>float32\<close>. Both operands of every sum below are products with a Python float,
  hence floating; for an integer scalar, whose type NumPy would choose from its value,
  the types are promoted as they are.
\<close>

definition add_dtype :: "ndarray \<Rightarrow> ndarray \<Rightarrow> np_dtype" where
  "add_dtype a b =
     (if (shape a = []) = (shape b = []) then promote_types (dtype a) (dtype b)
      else
        (let s = (if shape a = [] then a else b);
             arr = (if shape a = [] then b else a)
         in if dtype arr = np_float32 \<and> (dtype s = np_float32 \<or> dtype s = np_float64)
               \<and> list_all (\<lambda>v. \<bar>v\<bar> \<le> float32_max) (data s)
            then np_float32
            else promote_types (dtype s) (dtype arr)))"

text \<open>
  \<^verbatim>\<open>a + b\<close>. Arrays of one shape are added element by element; this case of broadcasting
  is written out because every use below is of this kind.
\<close>

definition np_add :: "ndarray \<Rightarrow> ndarray \<Rightarrow> error + ndarray" where
  "np_add a b =
     (if shape a = shape b then
        Inr \<lparr>dtype = add_dtype a b, shape = shape a,
             data = map2 (\<lambda>x y. x + y) (data a) (data b)\<rparr>
      else
        (case broadcast_shapes (shape a) (shape b) of
           None \<Rightarrow> Inl ValueError
         | Some s \<Rightarrow>
             Inr \<lparr>dtype = add_dtype a b, shape = s,
                  data = map2 (\<lambda>x y. x + y) (broadcast_to a s) (broadcast_to b s)\<rparr>))"

text \<open>\<^verbatim>\<open>c * x\<close> for a Python float \<open>c\<close>; a string operand raises TypeError.\<close>

definition py_scale :: "real \<Rightarrow> pyval \<Rightarrow> error + pyval" where
  "py_scale c v =
     (case v of
        Str s \<Rightarrow> Inl TypeError
      | Array a \<Rightarrow> Inr (Array (a\<lparr>dtype := scale_dtype c a,
                                   data := map (\<lambda>x. c * x) (data a)\<rparr>)))"

definition py_add :: "pyval \<Rightarrow> pyval \<Rightarrow> error + pyval" where
  "py_add v w =
     (case (v, w) of
        (Array a, Array b) \<Rightarrow> (case np_add a b of Inl e \<Rightarrow> Inl e | Inr c \<Rightarrow> Inr (Array c))
      | _ \<Rightarrow> Inl TypeError)"

text \<open>\<^verbatim>\<open>np.zeros_like(x)\<close>; for a string NumPy gives the empty string.\<close>

definition np_zeros_like :: "pyval \<Rightarrow> pyval" where
  "np_zeros_like v =
     (case v of
        Str s \<Rightarrow> Str []
      | Array a \<Rightarrow> Array (a\<lparr>data := map (\<lambda>x. 0) (data a)\<rparr>))"

text \<open>A Python index into a sequence of length \<open>n\<close>; negative indices count from the end.\<close>

definition py_index :: "nat \<Rightarrow> int \<Rightarrow> nat option" where
  "py_index n i =
     (if 0 \<le> i \<and> i < int n then Some (nat i)
      else if - int n \<le> i \<and> i < 0 then Some (nat (int n + i))
      else None)"

text \<open>
  The sum along axis \<open>k\<close> of the elements weighted by \<open>ws\<close>, with the axis kept at size 1:
  the element at position \<open>(b, j, i)\<close> of the blocks before, along and after the axis is
  at the flat position \<open>(b * n + j) * inner + i\<close>.
\<close>

definition weighted_sum_axis :: "real list \<Rightarrow> ndarray \<Rightarrow> nat \<Rightarrow> real list" where
  "weighted_sum_axis ws a k =
     (let outer = prod_list (take k (shape a));
          n = shape a ! k;
          inner = prod_list (drop (Suc k) (shape a))
      in concat (map (\<lambda>b. map (\<lambda>i. sum_list (map (\<lambda>j. ws ! j * (data a ! ((b * n + j) * inner + i)))
                                              [0..<n]))
                             [0..<inner])
                   [0..<outer]))"

text \<open>\<^verbatim>\<open>np.mean(wav, axis=k, keepdims=True)\<close>: the sum along the axis divided by its size.\<close>

definition np_mean_keepdims :: "ndarray \<Rightarrow> nat \<Rightarrow> ndarray" where
  "np_mean_keepdims a k =
     \<lparr>dtype = float_result (dtype a),
      shape = (shape a)[k := 1],
      data = map (\<lambda>s. s / real (shape a ! k))
               (weighted_sum_axis (replicate (shape a ! k) 1) a k)\<rparr>"

text \<open>\<^verbatim>\<open>array.T\<close>: all axes in reverse order.\<close>

definition np_T :: "ndarray \<Rightarrow> ndarray" where
  "np_T a =
     a\<lparr>shape := rev (shape a),
       data := map (\<lambda>k. data a ! ravel (shape a) (rev (unravel (rev (shape a)) k)))
                 [0..<prod_list (shape a)]\<rparr>"

text \<open>
  \<^verbatim>\<open>np.random.beta(alpha, alpha)\<close> and \<^verbatim>\<open>np.random.dirichlet(np.ones(n))\<close>. The tape holds the
  outcome of the draw: the distributions themselves are not modelled. The Dirichlet
  weights are \<open>n\<close> draws divided by their sum.
\<close>

definition random_beta :: "real \<Rightarrow> rng \<Rightarrow> real \<times> rng" where
  "random_beta alpha g = (g 0, advance g)"

definition random_dirichlet :: "nat \<Rightarrow> rng \<Rightarrow> real list \<times> rng" where
  "random_dirichlet n g =
     (let us = map g [0..<n]
      in (map (\<lambda>u. u / sum_list us) us, (\<lambda>i. g (i + n))))"

section \<open>MixBackgroundNoise\<close>

record mix_config =
  mix_key :: string
  probability :: real
  min_factor :: real
  max_factor :: real
  min_amp :: real
  max_amp :: real
  noise_only_probability :: real
  label_keys :: "string list"

text \<open>
  \<^verbatim>\<open>MixBackgroundNoise.get_noise\<close>. \<^verbatim>\<open>abs(wav).max()\<close> raises ValueError on an array without
  elements; absolute values are not negative, so the maximum is folded from 0.
\<close>

definition get_noise :: "dataset \<Rightarrow> mix_config \<Rightarrow> rng \<Rightarrow> error + (pyval \<times> rng)" where
  "get_noise noisedataset cfg g =
     (case random_randint (num_items noisedataset) g of
        Inl e \<Rightarrow> Inl e
      | Inr (i, g1) \<Rightarrow>
          (case getitem noisedataset i g1 of
             Inl e \<Rightarrow> Inl e
           | Inr (noise, g2) \<Rightarrow>
               (case noise (mix_key cfg) of
                  None \<Rightarrow> Inl KeyError
                | Some wav \<Rightarrow>
                    if max_amp cfg \<noteq> 0 then
                      (let (factor, g3) =
                             (if min_amp cfg \<noteq> max_amp cfg then
                                (let (u, g') = random_rand g2
                                 in (min_amp cfg + u * (max_amp cfg - min_amp cfg), g'))
                              else (min_amp cfg, g2))
                       in (case wav of
                             Str s \<Rightarrow> Inl TypeError
                           | Array a \<Rightarrow>
                               if data a = [] then Inl ValueError
                               else
                                 let m = fold max (map abs (data a)) 0;
                                     max_amplitude = (if m \<noteq> 0 then m else 1)
                                 in Inr (Array (a\<lparr>dtype := scale_dtype (factor / max_amplitude) a,
                                                  data := map (\<lambda>x. x * (factor / max_amplitude))
                                                            (data a)\<rparr>), g3)))
                    else Inr (wav, g2))))"

text \<open>The loop \<^verbatim>\<open>for k in self.label_keys: item[k] = np.zeros_like(item[k])\<close>.\<close>

fun zero_labels :: "string list \<Rightarrow> item \<Rightarrow> error + item" where
  "zero_labels [] item = Inr item"
| "zero_labels (k # ks) item =
     (case item k of
        None \<Rightarrow> Inl KeyError
      | Some v \<Rightarrow> zero_labels ks (item(k \<mapsto> np_zeros_like v)))"

text \<open>
  \<^verbatim>\<open>MixBackgroundNoise.__getitem__\<close>. Python's \<^verbatim>\<open>and\<close> and \<^verbatim>\<open>or\<close> draw a number only when
  the test before them does not decide.
\<close>

definition MixBackgroundNoise_getitem ::
  "dataset \<Rightarrow> dataset \<Rightarrow> mix_config \<Rightarrow> nat \<Rightarrow> rng \<Rightarrow> error + (item \<times> rng)" where
  "MixBackgroundNoise_getitem ds noisedataset cfg idx g =
     (case getitem ds idx g of
        Inl e \<Rightarrow> Inl e
      | Inr (item, g1) \<Rightarrow>
          (let (noise_only, g2) =
                 (if noise_only_probability cfg > 0 then
                    (let (u, g') = random_rand g1 in (u < noise_only_probability cfg, g'))
                  else (False, g1))
           in if noise_only then
                (case get_noise noisedataset cfg g2 of
                   Inl e \<Rightarrow> Inl e
                 | Inr (noise, g3) \<Rightarrow>
                     (case zero_labels (label_keys cfg) (item(mix_key cfg \<mapsto> noise)) of
                        Inl e \<Rightarrow> Inl e
                      | Inr item' \<Rightarrow> Inr (item', g3)))
              else
                (let (mix, g3) =
                       (if probability cfg > 0 then
                          (if probability cfg = 1 then (True, g2)
                           else (let (u, g') = random_rand g2 in (u < probability cfg, g')))
                        else (False, g2))
                 in if mix then
                      (let (u, g4) = random_rand g3;
                           noise_factor = min_factor cfg + u * (max_factor cfg - min_factor cfg)
                       in (case item (mix_key cfg) of
                             None \<Rightarrow> Inl KeyError
                           | Some v \<Rightarrow>
                               (case py_scale (1 - noise_factor) v of
                                  Inl e \<Rightarrow> Inl e
                                | Inr lhs \<Rightarrow>
                                    (case get_noise noisedataset cfg g4 of
                                       Inl e \<Rightarrow> Inl e
                                     | Inr (noise, g5) \<Rightarrow>
                                         (case py_scale noise_factor noise of
                                            Inl e \<Rightarrow> Inl e
                                          | Inr rhs \<Rightarrow>
                                              (case py_add lhs rhs of
                                                 Inl e \<Rightarrow> Inl e
                                               | Inr mixed \<Rightarrow>
                                                   Inr (item(mix_key cfg \<mapsto> mixed), g5)))))))
                    else Inr (item, g3))))"

definition MixBackgroundNoise :: "dataset \<Rightarrow> dataset \<Rightarrow> mix_config \<Rightarrow> dataset" where
  "MixBackgroundNoise ds noisedataset cfg =
     \<lparr>shapes = shapes ds, dtypes = dtypes ds,
      num_classes = num_classes ds, num_items = num_items ds,
      getitem = MixBackgroundNoise_getitem ds noisedataset cfg\<rparr>"

section \<open>Bird-free segments of a noise recording\<close>

text \<open>
  \<^verbatim>\<open>read_noise_csv(fn, sample_rate, length)\<close>. Reading and parsing the file is outside the
  model: the data frame is given as its columns by name. \<^verbatim>\<open>astype(np.int)\<close> truncates
  towards zero.
\<close>

type_synonym dataframe = "string \<rightharpoonup> real list"

definition trunc :: "real \<Rightarrow> int" where
  "trunc x = (if 0 \<le> x then \<lfloor>x\<rfloor> else \<lceil>x\<rceil>)"

text \<open>The two accepted layouts of the table, checked in the order of the source.\<close>

definition call_intervals :: "dataframe \<Rightarrow> error + (real list \<times> real list)" where
  "call_intervals df =
     (case (df ''Time (s)'', df ''Freq (Hz)'') of
        (Some ts, Some fs) \<Rightarrow>
          let beginnings = map (\<lambda>t. t - 1.5) ts;
              endings = map (\<lambda>b. b + 1.5) beginnings
          in Inr (beginnings, endings)
      | _ \<Rightarrow>
          (case (df ''Begin Time (s)'', df ''End Time (s)'') of
             (Some bs, Some es) \<Rightarrow> Inr (bs, es)
           | _ \<Rightarrow> Inl ValueError))"

fun cumsum_from :: "int \<Rightarrow> int list \<Rightarrow> int list" where
  "cumsum_from acc [] = []"
| "cumsum_from acc (x # xs) = (acc + x) # cumsum_from (acc + x) xs"

definition np_cumsum :: "int list \<Rightarrow> int list" where
  "np_cumsum xs = cumsum_from 0 xs"

text \<open>
  Lines 399 to 406: from the sorted change points to the list of \<open>(start, length)\<close> pairs.
  \<open>inactive\<close> holds the positions where the running sum is zero, and the fancy indexing
  \<^verbatim>\<open>times[inactive]\<close>, \<^verbatim>\<open>times[inactive + 1]\<close> reads the list at these positions.
\<close>

definition bird_free_segments :: "(int \<times> int) list \<Rightarrow> int \<Rightarrow> (int \<times> int) list" where
  "bird_free_segments changepoints len =
     (let rows = [(0, 0)] @ changepoints @ [(len, 0)];
          times = map fst rows;
          changes = map snd rows;
          num_sources = np_cumsum (butlast changes);
          inactive = filter (\<lambda>i. num_sources ! i = 0) [0..<length num_sources];
          beginnings = map (\<lambda>i. times ! i) inactive;
          endings = map (\<lambda>i. times ! (i + 1)) inactive;
          lengths = map2 (\<lambda>e b. e - b) endings beginnings
      in zip beginnings lengths)"

text \<open>
  Lines 391 to 398: sample offsets, one \<open>+1\<close> event per beginning and one \<open>-1\<close> event per
  ending, sorted as Python sorts tuples (by offset, then by change).
\<close>

definition changepoints_of :: "real list \<Rightarrow> real list \<Rightarrow> real \<Rightarrow> (int \<times> int) list" where
  "changepoints_of beginnings endings sample_rate =
     sort (map (\<lambda>b. (trunc (b * sample_rate), 1)) beginnings
           @ map (\<lambda>e. (trunc (e * sample_rate), - 1)) endings)"

definition read_noise_csv :: "dataframe \<Rightarrow> real \<Rightarrow> int \<Rightarrow> error + (int \<times> int) list" where
  "read_noise_csv df sample_rate len =
     (case call_intervals df of
        Inl e \<Rightarrow> Inl e
      | Inr (beginnings, endings) \<Rightarrow>
          Inr (bird_free_segments (changepoints_of beginnings endings sample_rate) len))"




definition positive_length :: "(int \<times> int) list \<Rightarrow> (int \<times> int) list" where
  "positive_length segs = filter (\<lambda>(s, l). 0 < l) segs"

text \<open>The sum of the changes of all events at offsets up to \<open>x\<close>.\<close>

definition net_change :: "(int \<times> int) list \<Rightarrow> int \<Rightarrow> int" where
  "net_change rows x = sum_list (map snd (filter (\<lambda>(u, c). u \<le> x) rows))"

text \<open>A sample \<open>x\<close> lies in one of the segments \<open>(start, length)\<close>.\<close>

definition covers :: "(int \<times> int) list \<Rightarrow> int \<Rightarrow> bool" where
  "covers segs x = list_ex (\<lambda>(s, l). s \<le> x \<and> x < s + l) segs"



text \<open>
  The events of one access in terms of the tape: the noise-only branch fires when the
  probability is positive and the draw is below it; the mixing branch fires when its
  probability is 1, or is positive with the draw below it. A draw is consumed only where
  Python evaluates \<^verbatim>\<open>np.random.rand()\<close>.
\<close>

definition fires_noise_only :: "mix_config \<Rightarrow> rng \<Rightarrow> bool" where
  "fires_noise_only cfg g = (noise_only_probability cfg > 0 \<and> g 0 < noise_only_probability cfg)"

definition after_noise_only :: "mix_config \<Rightarrow> rng \<Rightarrow> rng" where
  "after_noise_only cfg g = (if noise_only_probability cfg > 0 then advance g else g)"

definition fires_mix :: "mix_config \<Rightarrow> rng \<Rightarrow> bool" where
  "fires_mix cfg g = (probability cfg > 0 \<and> (probability cfg = 1 \<or> g 0 < probability cfg))"

definition after_mix :: "mix_config \<Rightarrow> rng \<Rightarrow> rng" where
  "after_mix cfg g = (if probability cfg > 0 \<and> probability cfg \<noteq> 1 then advance g else g)"

text \<open>The mixing weight \<^verbatim>\<open>noise_factor\<close> drawn from the tape.\<close>

definition mix_weight :: "mix_config \<Rightarrow> rng \<Rightarrow> real" where
  "mix_weight cfg g = min_factor cfg + g 0 * (max_factor cfg - min_factor cfg)"

text \<open>A configuration that always mixes with weight one quarter, for concrete runs.\<close>

definition example_mix_config :: mix_config where
  "example_mix_config =
     \<lparr>mix_key = ''input'', probability = 1, min_factor = 1 / 4, max_factor = 1 / 4,
      min_amp = 0, max_amp = 0, noise_only_probability = 0, label_keys = []\<rparr>"

text \<open>
  The noise excerpt in the words of the specification: the waveform of the drawn noise
  item, and with amplitude normalisation (\<open>max_amp\<close> not zero) this waveform divided by its
  peak absolute amplitude (by 1 when the waveform is silent) and multiplied by a factor
  drawn between \<open>min_amp\<close> and \<open>max_amp\<close> (\<open>min_amp\<close> itself when the two are equal, without
  a draw).
\<close>

definition peak_amplitude :: "ndarray \<Rightarrow> real" where
  "peak_amplitude a = (let m = Max (set (map abs (data a))) in if m = 0 then 1 else m)"

definition amp_factor :: "mix_config \<Rightarrow> rng \<Rightarrow> real" where
  "amp_factor cfg g =
     (if min_amp cfg \<noteq> max_amp cfg then min_amp cfg + g 0 * (max_amp cfg - min_amp cfg)
      else min_amp cfg)"

definition after_amp :: "mix_config \<Rightarrow> rng \<Rightarrow> rng" where
  "after_amp cfg g = (if max_amp cfg \<noteq> 0 \<and> min_amp cfg \<noteq> max_amp cfg then advance g else g)"

definition noise_excerpt :: "mix_config \<Rightarrow> ndarray \<Rightarrow> rng \<Rightarrow> ndarray" where
  "noise_excerpt cfg wav g =
     (if max_amp cfg = 0 then wav
      else wav\<lparr>dtype := scale_dtype (amp_factor cfg g / peak_amplitude wav) wav,
               data := map (\<lambda>x. x * (amp_factor cfg g / peak_amplitude wav)) (data wav)\<rparr>)"

text \<open>
  A configuration that always takes the noise-only branch, normalises the noise to the
  peak amplitude 1 and zeroes the background labels, for concrete runs.
\<close>

definition example_noise_only_config :: mix_config where
  "example_noise_only_config =
     \<lparr>mix_key = ''input'', probability = 1, min_factor = 1 / 4, max_factor = 1 / 4,
      min_amp = 1, max_amp = 1, noise_only_probability = 1, label_keys = [''label_bg'']\<rparr>"

section \<open>DownmixChannels, Floatify and Mixup\<close>

text \<open>
  \<^verbatim>\<open>DownmixChannels.__getitem__\<close>. Both ways of the random method compute the weighted sum
  along the axis and keep the axis at size 1: \<^verbatim>\<open>np.dot\<close> for the last axis, a product with
  the reshaped weights summed along the axis otherwise.
\<close>

definition DownmixChannels_getitem ::
  "dataset \<Rightarrow> string \<Rightarrow> int \<Rightarrow> string \<Rightarrow> nat \<Rightarrow> rng \<Rightarrow> error + (item \<times> rng)" where
  "DownmixChannels_getitem ds key axis method idx g =
     (case getitem ds idx g of
        Inl e \<Rightarrow> Inl e
      | Inr (item, g1) \<Rightarrow>
          (case item key of
             None \<Rightarrow> Inl KeyError
           | Some (Str s) \<Rightarrow> Inl AttributeError
           | Some (Array wav) \<Rightarrow>
               (case py_index (length (shape wav)) axis of
                  None \<Rightarrow> Inl IndexError
                | Some k \<Rightarrow>
                    let num_channels = shape wav ! k
                    in if num_channels > 1 then
                         (if method = ''average'' then
                            Inr (item(key \<mapsto> Array (np_mean_keepdims wav k)), g1)
                          else if method = ''random_uniform'' then
                            (let (weights, g2) = random_dirichlet num_channels g1;
                                 weights = map (astype_elem (dtype wav)) weights
                             in Inr (item(key \<mapsto>
                                       Array \<lparr>dtype = (if axis = - 1
                                                           \<or> axis = int (length (shape wav)) - 1
                                                        then dtype wav else sum_dtype (dtype wav)),
                                              shape = (shape wav)[k := 1],
                                              data = weighted_sum_axis weights wav k\<rparr>), g2))
                          else Inr (item(key \<mapsto> Array wav), g1))
                       else Inr (item(key \<mapsto> Array wav), g1))))"

text \<open>\<^verbatim>\<open>DownmixChannels.__init__\<close>.\<close>

definition DownmixChannels ::
  "dataset \<Rightarrow> string \<Rightarrow> int \<Rightarrow> string \<Rightarrow> error + dataset" where
  "DownmixChannels ds key axis method =
     (case shapes ds key of
        None \<Rightarrow> Inl KeyError
      | Some s \<Rightarrow>
          (case py_index (length s) axis of
             None \<Rightarrow> Inl IndexError
           | Some k \<Rightarrow>
               Inr \<lparr>shapes = (shapes ds)(key \<mapsto> s[k := Some 1]),
                    dtypes = dtypes ds,
                    num_classes = num_classes ds,
                    num_items = num_items ds,
                    getitem = DownmixChannels_getitem ds key axis method\<rparr>))"

text \<open>
  \<^verbatim>\<open>Floatify\<close> (its flag \<^verbatim>\<open>transpose\<close> is \<open>do_transpose\<close> below). \<^verbatim>\<open>audio.to_float\<close> belongs to a module outside this file and is a parameter.
\<close>

definition Floatify_getitem ::
  "(pyval \<Rightarrow> error + pyval) \<Rightarrow> dataset \<Rightarrow> bool \<Rightarrow> string \<Rightarrow> nat \<Rightarrow> rng
     \<Rightarrow> error + (item \<times> rng)" where
  "Floatify_getitem to_float ds do_transpose key idx g =
     (case getitem ds idx g of
        Inl e \<Rightarrow> Inl e
      | Inr (item, g1) \<Rightarrow>
          (case item key of
             None \<Rightarrow> Inl KeyError
           | Some d \<Rightarrow>
               let d' = (if do_transpose
                         then (case d of Array a \<Rightarrow> Array (np_T a) | Str s \<Rightarrow> Str s)
                         else d)
               in (case to_float d' of
                     Inl e \<Rightarrow> Inl e
                   | Inr v \<Rightarrow> Inr (item(key \<mapsto> v), g1))))"

definition Floatify ::
  "(pyval \<Rightarrow> error + pyval) \<Rightarrow> dataset \<Rightarrow> bool \<Rightarrow> string \<Rightarrow> error + dataset" where
  "Floatify to_float ds do_transpose key =
     (if do_transpose then
        (case shapes ds key of
           None \<Rightarrow> Inl KeyError
         | Some s \<Rightarrow>
             Inr \<lparr>shapes = (shapes ds)(key \<mapsto> rev s),
                  dtypes = (dtypes ds)(key \<mapsto> np_float32),
                  num_classes = num_classes ds,
                  num_items = num_items ds,
                  getitem = Floatify_getitem to_float ds do_transpose key\<rparr>)
      else
        Inr \<lparr>shapes = shapes ds,
             dtypes = (dtypes ds)(key \<mapsto> np_float32),
             num_classes = num_classes ds,
             num_items = num_items ds,
             getitem = Floatify_getitem to_float ds do_transpose key\<rparr>)"

text \<open>
  \<^verbatim>\<open>Mixup.__getitem__\<close>: the loop over \<^verbatim>\<open>self.keys\<close>, the loop over
  \<^verbatim>\<open>self.binarize_keys\<close>, and the access itself. In
  \<^verbatim>\<open>(item[k] > 0.0).astype(item[k].dtype)\<close> the element type is read from the value that is
  in the item when the loop runs.
\<close>

fun blend_keys :: "string list \<Rightarrow> real \<Rightarrow> real \<Rightarrow> item \<Rightarrow> item \<Rightarrow> item \<Rightarrow> error + item" where
  "blend_keys [] w1 w2 item1 item2 item = Inr item"
| "blend_keys (k # ks) w1 w2 item1 item2 item =
     (case item1 k of
        None \<Rightarrow> Inl KeyError
      | Some v1 \<Rightarrow>
          (case py_scale w1 v1 of
             Inl e \<Rightarrow> Inl e
           | Inr lhs \<Rightarrow>
               (case item2 k of
                  None \<Rightarrow> Inl KeyError
                | Some v2 \<Rightarrow>
                    (case py_scale w2 v2 of
                       Inl e \<Rightarrow> Inl e
                     | Inr rhs \<Rightarrow>
                         (case py_add lhs rhs of
                            Inl e \<Rightarrow> Inl e
                          | Inr v \<Rightarrow> blend_keys ks w1 w2 item1 item2 (item(k \<mapsto> v)))))))"

definition positive_indicator :: "ndarray \<Rightarrow> ndarray" where
  "positive_indicator a =
     a\<lparr>data := map (\<lambda>x. astype_elem (dtype a) (if x > 0 then 1 else 0)) (data a)\<rparr>"

fun binarize :: "string list \<Rightarrow> item \<Rightarrow> error + item" where
  "binarize [] item = Inr item"
| "binarize (k # ks) item =
     (case item k of
        None \<Rightarrow> Inl KeyError
      | Some (Str s) \<Rightarrow> Inl TypeError
      | Some (Array a) \<Rightarrow> binarize ks (item(k \<mapsto> Array (positive_indicator a))))"

definition Mixup_getitem ::
  "dataset \<Rightarrow> string list \<Rightarrow> string list \<Rightarrow> real \<Rightarrow> nat \<Rightarrow> rng \<Rightarrow> error + (item \<times> rng)" where
  "Mixup_getitem ds keys binarize_keys alpha idx g =
     (case getitem ds idx g of
        Inl e \<Rightarrow> Inl e
      | Inr (item1, g1) \<Rightarrow>
          (case random_randint (num_items ds) g1 of
             Inl e \<Rightarrow> Inl e
           | Inr (j, g2) \<Rightarrow>
               (case getitem ds j g2 of
                  Inl e \<Rightarrow> Inl e
                | Inr (item2, g3) \<Rightarrow>
                    let (w1, g4) = random_beta alpha g3;
                        w2 = 1 - w1;
                        item = (if w1 \<ge> w2 then item1 else item2)
                    in (case blend_keys keys w1 w2 item1 item2 item of
                          Inl e \<Rightarrow> Inl e
                        | Inr blended \<Rightarrow>
                            (case binarize binarize_keys blended of
                               Inl e \<Rightarrow> Inl e
                             | Inr item' \<Rightarrow> Inr (item', g4))))))"

definition Mixup :: "dataset \<Rightarrow> string list \<Rightarrow> string list \<Rightarrow> real \<Rightarrow> dataset" where
  "Mixup ds keys binarize_keys alpha =
     \<lparr>shapes = shapes ds, dtypes = dtypes ds,
      num_classes = num_classes ds, num_items = num_items ds,
      getitem = Mixup_getitem ds keys binarize_keys alpha\<rparr>"

text \<open>
  \<^verbatim>\<open>__getattr__\<close>, the same in all five wrappers: Python calls it when the attribute is not
  found on the object, and it looks the name up on the wrapped dataset. \<open>own\<close> holds the
  attributes found on a wrapper, and the innermost dataset raises AttributeError for a
  name it does not have.
\<close>

definition stage_getattr ::
  "(string \<rightharpoonup> 'v) \<Rightarrow> (string \<Rightarrow> error + 'v) \<Rightarrow> string \<Rightarrow> error + 'v" where
  "stage_getattr own upstream_getattr attr =
     (case own attr of Some v \<Rightarrow> Inr v | None \<Rightarrow> upstream_getattr attr)"

fun chain_getattr :: "(string \<rightharpoonup> 'v) list \<Rightarrow> (string \<rightharpoonup> 'v) \<Rightarrow> string \<Rightarrow> error + 'v" where
  "chain_getattr [] leaf attr = (case leaf attr of Some v \<Rightarrow> Inr v | None \<Rightarrow> Inl AttributeError)"
| "chain_getattr (own # wrappers) leaf attr =
     stage_getattr own (chain_getattr wrappers leaf) attr"

section \<open>BirdcallDataset\<close>

text \<open>
  \<^verbatim>\<open>common_shape(arrays)\<close> on the list of the arrays' shapes: \<^verbatim>\<open>next\<close> on an empty iterator
  raises StopIteration, and \<^verbatim>\<open>zip\<close> stops at the shorter shape.
\<close>

definition common_shape :: "nat list list \<Rightarrow> error + nat option list" where
  "common_shape arrays =
     (case arrays of
        [] \<Rightarrow> Inl StopIteration
      | s # rest \<Rightarrow>
          Inr (fold (\<lambda>array_shape sh. map2 (\<lambda>a b. if a = Some b then a else None) sh array_shape)
                 rest (map Some s)))"

text \<open>
  The annotation table is given by its columns. \<^verbatim>\<open>BirdcallDataset.__getitem__\<close> adds to the
  identifier and the waveform every key of \<^verbatim>\<open>self.shapes\<close> that is not yet in the item,
  which are the annotation columns entered by \<^verbatim>\<open>__init__\<close>.
\<close>

type_synonym annotations = "string \<rightharpoonup> pyval list"

definition label_columns :: "annotations option \<Rightarrow> string list" where
  "label_columns ann =
     (case ann of
        None \<Rightarrow> []
      | Some t \<Rightarrow> filter (\<lambda>k. t k \<noteq> None) [''label_fg'', ''label_bg'', ''label_all'', ''rating''])"

fun add_labels :: "string list \<Rightarrow> annotations \<Rightarrow> nat \<Rightarrow> item \<Rightarrow> error + item" where
  "add_labels [] t idx item = Inr item"
| "add_labels (k # ks) t idx item =
     (case t k of
        None \<Rightarrow> Inl KeyError
      | Some column \<Rightarrow>
          if idx < length column then add_labels ks t idx (item(k \<mapsto> column ! idx))
          else Inl IndexError)"

definition BirdcallDataset_getitem ::
  "string list \<Rightarrow> ndarray list \<Rightarrow> annotations option \<Rightarrow> nat \<Rightarrow> rng \<Rightarrow> error + (item \<times> rng)" where
  "BirdcallDataset_getitem itemids wavs ann idx g =
     (if idx < length itemids \<and> idx < length wavs then
        (case add_labels (label_columns ann) (case ann of None \<Rightarrow> Map.empty | Some t \<Rightarrow> t) idx
                [''itemid'' \<mapsto> Str (itemids ! idx), ''input'' \<mapsto> Array (wavs ! idx)] of
           Inl e \<Rightarrow> Inl e
         | Inr item \<Rightarrow> Inr (item, g))
      else Inl IndexError)"

definition BirdcallDataset ::
  "string list \<Rightarrow> ndarray list \<Rightarrow> string list \<Rightarrow> annotations option \<Rightarrow> error + dataset" where
  "BirdcallDataset itemids wavs labelset ann =
     (case common_shape (map shape wavs) of
        Inl e \<Rightarrow> Inl e
      | Inr input_shape \<Rightarrow>
          let n = length labelset;
              has = (\<lambda>k. k \<in> set (label_columns ann))
          in Inr \<lparr>shapes = (\<lambda>k. if k = ''input'' then Some input_shape
                                 else if k = ''itemid'' then Some []
                                 else if k = ''label_fg'' \<and> has k then Some []
                                 else if k = ''label_bg'' \<and> has k then Some [Some n]
                                 else if k = ''label_all'' \<and> has k then Some [Some n]
                                 else if k = ''rating'' \<and> has k then Some []
                                 else None),
                  dtypes = (\<lambda>k. if k = ''input'' then Some (dtype (hd wavs))
                                 else if k = ''itemid'' then Some py_str
                                 else if k = ''label_fg'' \<and> has k then Some np_uint8
                                 else if k = ''label_bg'' \<and> has k then Some np_uint8
                                 else if k = ''label_all'' \<and> has k then Some np_float32
                                 else if k = ''rating'' \<and> has k then Some np_float32
                                 else None),
                  num_classes = n,
                  num_items = length itemids,
                  getitem = BirdcallDataset_getitem itemids wavs ann\<rparr>)"

text \<open>One field of the item returned by an access, for concrete runs.\<close>

definition result_field :: "error + (item \<times> rng) \<Rightarrow> string \<Rightarrow> pyval option" where
  "result_field r k = (case r of Inl e \<Rightarrow> None | Inr (item, g) \<Rightarrow> item k)"

text \<open>
  Two recordings with background labels of type \<^verbatim>\<open>uint8\<close> and combined labels of type
  \<^verbatim>\<open>float32\<close>, for concrete runs.
\<close>

definition example_birdcalls :: "error + dataset" where
  "example_birdcalls =
     BirdcallDataset [''a'', ''b'']
       [\<lparr>dtype = np_float32, shape = [3], data = [1, 2, 3]\<rparr>,
        \<lparr>dtype = np_float32, shape = [3], data = [4, 5, 6]\<rparr>]
       [''x'', ''y'']
       (Some [''label_bg'' \<mapsto> [Array \<lparr>dtype = np_uint8, shape = [2], data = [1, 0]\<rparr>,
                               Array \<lparr>dtype = np_uint8, shape = [2], data = [0, 1]\<rparr>],
              ''label_all'' \<mapsto> [Array \<lparr>dtype = np_float32, shape = [2], data = [1 / 2, 0]\<rparr>,
                                Array \<lparr>dtype = np_float32, shape = [2], data = [0, 1 / 2]\<rparr>]])"

text \<open>A recording with two channels of two samples, for concrete runs.\<close>

definition example_stereo :: "error + dataset" where
  "example_stereo =
     BirdcallDataset [''a''] [\<lparr>dtype = np_float32, shape = [2, 2], data = [2, 2, 4, 4]\<rparr>] [] None"

text \<open>The dataset of a successful construction; every access raises otherwise.\<close>

definition the_dataset :: "error + dataset \<Rightarrow> dataset" where
  "the_dataset r =
     (case r of
        Inr ds \<Rightarrow> ds
      | Inl e \<Rightarrow> \<lparr>shapes = Map.empty, dtypes = Map.empty, num_classes = 0, num_items = 0,
                    getitem = (\<lambda>idx g. Inl e)\<rparr>)"

section \<open>Verified properties\<close>

subsection \<open>Looping and cropping\<close>


lemma take_concat_replicate:
  "0 < f \<Longrightarrow> k \<le> length d \<Longrightarrow> take k (concat (replicate f d)) = take k d"
  by (cases f) simp_all

lemma loop_array:
  assumes "shape a = n # rest" "0 < n" "n < len" "length (data a) = n * row_size rest"
  shows "loop (Array a) len =
           Inr (Array (a\<lparr>shape := len # rest,
                         data := concat (replicate (len div n) (data a))
                                 @ take ((len mod n) * row_size rest) (data a)\<rparr>))"
proof -
  define f where "f = len div n"
  define m where "m = len mod n"
  have len: "len = f * n + m" by (simp add: f_def m_def)
  have mn: "m < n" using assms by (simp add: m_def)
  have f1: "1 \<le> f" using assms by (simp add: f_def Suc_leI div_greater_zero_iff less_imp_le)
  have lt: "m * row_size rest \<le> length (data a)"
    using assms mn by (simp add: mult_le_mono1 less_imp_le)
  have mle: "m \<le> f * n" using mn f1
    by (metis le_trans less_imp_le mult_le_mono1 nat_mult_1)
  have nlt: "n < f * n + m" using assms(3) len by simp
  have dv: "(f * n + m) div n = f" using mn by simp
  show ?thesis
  proof (cases "f > 1")
    case True
    have "loop (Array a) (f * n + m) =
           Inr (Array (a\<lparr>shape := (f * n + m) # rest,
                         data := concat (replicate f (data a))
                                 @ take (m * row_size rest) (data a)\<rparr>))"
      using assms(1,2) mn True lt f1 mle nlt dv
      by (simp add: loop_def np_tile0_def py_len_def slice0_def np_concatenate0_def Let_def
            take_concat_replicate min_absorb1)
    from this[folded len] show ?thesis by (simp only: f_def m_def)
  next
    case False
    with f1 have f: "f = 1" by simp
    have m0: "0 < m" using assms(3) len f by simp
    have dv1: "(n + m) div n = 1" using dv f by simp
    have "loop (Array a) (n + m) =
           Inr (Array (a\<lparr>shape := (n + m) # rest,
                         data := data a @ take (m * row_size rest) (data a)\<rparr>))"
      using assms(1,2) mn m0 lt dv1
      by (simp add: loop_def py_len_def slice0_def np_concatenate0_def Let_def min_absorb1)
    then have "loop (Array a) (f * n + m) =
           Inr (Array (a\<lparr>shape := (f * n + m) # rest,
                         data := concat (replicate f (data a))
                                 @ take (m * row_size rest) (data a)\<rparr>))"
      using f by simp
    from this[folded len] show ?thesis by (simp only: f_def m_def)
  qed
qed


lemma loop_empty:
  assumes "shape a = 0 # rest" "0 < len"
  shows "loop (Array a) len = Inr (Array (np_zeros (len # rest) (dtype a)))"
  using assms by (simp add: loop_def)

lemma randint_range:
  assumes "rng_ok g" "0 < high"
  shows "\<exists>k<high. random_randint high g = Inr (k, advance g)"
proof -
  have g0: "0 \<le> g 0" "g 0 < 1" using assms(1) by (simp_all add: rng_ok_def)
  have "g 0 * real high < real high" using g0 assms(2) by simp
  then have "\<lfloor>g 0 * real high\<rfloor> < int high" by (simp add: floor_less_iff)
  moreover have "0 \<le> \<lfloor>g 0 * real high\<rfloor>" using g0 by simp
  ultimately have "nat \<lfloor>g 0 * real high\<rfloor> < high" by linarith
  then show ?thesis using assms(2) by (simp add: random_randint_def)
qed

lemma randint_hits:
  assumes "k < high" "g 0 = real k / real high"
  shows "random_randint high g = Inr (k, advance g)"
  using assms by (simp add: random_randint_def)

lemma slice0_window:
  assumes "shape a = n # rest" "pos + len \<le> n"
  shows "slice0 (Array a) pos (pos + len) = Inr (Array (window a pos len))"
  using assms by (simp add: slice0_def window_def Let_def min_absorb1)

lemma center_bounds:
  assumes "len < (n::nat)"
  shows "(n + len) div 2 = (n - len) div 2 + len" "(n - len) div 2 + len \<le> n"
proof -
  have "n + len = (n - len) + 2 * len" using assms by simp
  then show "(n + len) div 2 = (n - len) div 2 + len" by simp
  show "(n - len) div 2 + len \<le> n" using assms by linarith
qed

lemma crop_deterministic:
  assumes "shape a = n # rest" "len < n"
  shows "crop (Array a) len True g = Inr (Array (window a ((n - len) div 2) len), g)"
  using assms center_bounds[OF assms(2)] slice0_window[OF assms(1), of "(n - len) div 2" len]
  by (simp add: crop_def py_len_def)

lemma crop_random:
  assumes "shape a = n # rest" "len < n" "random_randint (n - len + 1) g = Inr (pos, g')" "pos \<le> n - len"
  shows "crop (Array a) len False g = Inr (Array (window a pos len), g')"
  using assms slice0_window[OF assms(1), of pos len]
  by (simp add: crop_def py_len_def)


text \<open>
  Claim C4. When the field under the configured key is shorter than the target length, the
  stage returns the source looped along its first axis: \<open>len div n\<close> whole copies followed
  by the first \<open>len mod n\<close> rows, which is exactly \<open>len\<close> rows; the element type is kept.
  An empty source gives zeros of the target length and the source's element type, not an
  error. \<^verbatim>\<open>[1,2,3]\<close> looped to length 7 is \<^verbatim>\<open>[1,2,3,1,2,3,1]\<close>.
\<close>

theorem loop_stage_correct:
  assumes up: "getitem ds idx g = Inr (item, g1)"
    and key: "item key = Some (Array a)"
    and shp: "shape a = n # rest"
    and inv: "length (data a) = n * row_size rest"
    and short: "n < len"
  shows "(0 < n \<longrightarrow>
            FixedSizeExcerpts_getitem ds len deterministic key idx g =
              Inr (item(key \<mapsto> Array (a\<lparr>shape := len # rest,
                     data := concat (replicate (len div n) (data a))
                             @ take ((len mod n) * row_size rest) (data a)\<rparr>)), g1)
            \<and> length (concat (replicate (len div n) (data a))
                       @ take ((len mod n) * row_size rest) (data a)) = len * row_size rest)
       \<and> (n = 0 \<longrightarrow>
            FixedSizeExcerpts_getitem ds len deterministic key idx g =
              Inr (item(key \<mapsto> Array \<lparr>dtype = dtype a, shape = len # rest,
                     data = replicate (len * row_size rest) 0\<rparr>), g1))
       \<and> loop (Array \<lparr>dtype = d, shape = [3], data = [1, 2, 3]\<rparr>) 7 =
            Inr (Array \<lparr>dtype = d, shape = [7], data = [1, 2, 3, 1, 2, 3, 1]\<rparr>)"
proof (intro conjI impI)
  assume pos: "0 < n"
  show "FixedSizeExcerpts_getitem ds len deterministic key idx g =
              Inr (item(key \<mapsto> Array (a\<lparr>shape := len # rest,
                     data := concat (replicate (len div n) (data a))
                             @ take ((len mod n) * row_size rest) (data a)\<rparr>)), g1)"
    using up key shp short loop_array[OF shp pos short inv]
    by (simp add: FixedSizeExcerpts_getitem_def py_len_def)
  have "length (take ((len mod n) * row_size rest) (data a)) = (len mod n) * row_size rest"
    using inv pos by (simp add: mult_le_mono1 less_imp_le)
  then have "length (concat (replicate (len div n) (data a))
                       @ take ((len mod n) * row_size rest) (data a))
              = (len div n) * (n * row_size rest) + (len mod n) * row_size rest"
    by (simp add: length_concat sum_list_replicate inv)
  also have "\<dots> = (len div n * n + len mod n) * row_size rest"
    by (simp only: add_mult_distrib mult.assoc)
  finally show "length (concat (replicate (len div n) (data a))
                       @ take ((len mod n) * row_size rest) (data a)) = len * row_size rest"
    by simp
next
  assume z: "n = 0"
  then have "0 < len" using short by simp
  from loop_empty[OF _ this, of a rest] shp z
  show "FixedSizeExcerpts_getitem ds len deterministic key idx g =
              Inr (item(key \<mapsto> Array \<lparr>dtype = dtype a, shape = len # rest,
                     data = replicate (len * row_size rest) 0\<rparr>), g1)"
    using up key short
    by (simp add: FixedSizeExcerpts_getitem_def py_len_def np_zeros_def row_size_def)
next
  have r: "replicate 2 x = [x, x]" for x :: "real list" by (simp add: numeral_2_eq_2)
  show "loop (Array \<lparr>dtype = d, shape = [3], data = [1, 2, 3]\<rparr>) 7 =
            Inr (Array \<lparr>dtype = d, shape = [7], data = [1, 2, 3, 1, 2, 3, 1]\<rparr>)"
    using loop_array[of "\<lparr>dtype = d, shape = [3], data = [1, 2, 3]\<rparr>" 3 "[]" 7]
    by (simp add: row_size_def r)
qed

theorem loop_stage_correct_witness:
  "FixedSizeExcerpts_getitem
       (example_leaf (Array \<lparr>dtype = np_int16, shape = [2], data = [5, 6]\<rparr>))
       5 False ''input'' 0 (\<lambda>i. 0)
     = Inr ([''input'' \<mapsto> Array \<lparr>dtype = np_int16, shape = [5], data = [5, 6, 5, 6, 5]\<rparr>],
            (\<lambda>i. 0))
   \<and> FixedSizeExcerpts_getitem
       (example_leaf (Array \<lparr>dtype = np_int16, shape = [0, 2], data = []\<rparr>))
       2 False ''input'' 0 (\<lambda>i. 0)
     = Inr ([''input'' \<mapsto> Array \<lparr>dtype = np_int16, shape = [2, 2], data = [0, 0, 0, 0]\<rparr>],
            (\<lambda>i. 0))"
proof -
  have r: "replicate 2 x = [x, x]" for x :: "real list" by (simp add: numeral_2_eq_2)
  have r4: "replicate 4 (0::real) = [0, 0, 0, 0]" by (simp add: eval_nat_numeral)
  have a: "getitem (example_leaf v) 0 (\<lambda>i. 0) = Inr ([''input'' \<mapsto> v], (\<lambda>i. 0))" for v
    by (simp add: example_leaf_def)
  show ?thesis
    using loop_stage_correct[OF a, where key = "''input''"
            and a = "\<lparr>dtype = np_int16, shape = [2], data = [5, 6]\<rparr>"
            and n = 2 and rest = "[]" and len = 5 and deterministic = False]
          loop_stage_correct[OF a, where key = "''input''"
            and a = "\<lparr>dtype = np_int16, shape = [0, 2], data = []\<rparr>"
            and n = 0 and rest = "[2]" and len = 2 and deterministic = False]
    by (simp add: row_size_def r r4)
qed


text \<open>
  Claim C5. When the field is longer than the target length, deterministic mode returns the
  window of \<open>len\<close> rows that starts at row \<open>(n - len) div 2\<close>; random mode returns a
  window starting at some row \<open>pos \<le> n - len\<close>, and each of these \<open>n - len + 1\<close> rows is
  the outcome of some draw; a field of exactly the target length leaves the item as it is.
  \<^verbatim>\<open>[0,1,2,3,4,5]\<close> cropped to length 4 deterministically is \<^verbatim>\<open>[1,2,3,4]\<close>.
\<close>

theorem crop_stage_correct:
  assumes up: "getitem ds idx g = Inr (item, g1)"
    and key: "item key = Some (Array a)"
    and shp: "shape a = n # rest"
  shows "(len < n \<longrightarrow>
            FixedSizeExcerpts_getitem ds len True key idx g =
              Inr (item(key \<mapsto> Array (window a ((n - len) div 2) len)), g1))
       \<and> (len < n \<and> rng_ok g1 \<longrightarrow>
            (\<exists>pos\<le>n - len.
               FixedSizeExcerpts_getitem ds len False key idx g =
                 Inr (item(key \<mapsto> Array (window a pos len)), advance g1)))
       \<and> (len < n \<longrightarrow>
            (\<forall>pos\<le>n - len. \<exists>u. 0 \<le> u \<and> u < 1 \<and>
               (\<forall>g'. g' 0 = u \<longrightarrow>
                  crop (Array a) len False g' = Inr (Array (window a pos len), advance g'))))
       \<and> (n = len \<longrightarrow>
            FixedSizeExcerpts_getitem ds len deterministic key idx g = Inr (item, g1))
       \<and> crop (Array \<lparr>dtype = d, shape = [6], data = [0, 1, 2, 3, 4, 5]\<rparr>) 4 True g0
            = Inr (Array \<lparr>dtype = d, shape = [4], data = [1, 2, 3, 4]\<rparr>, g0)"
proof (intro conjI impI allI)
  assume long: "len < n"
  show "FixedSizeExcerpts_getitem ds len True key idx g =
              Inr (item(key \<mapsto> Array (window a ((n - len) div 2) len)), g1)"
    using up key shp long crop_deterministic[OF shp long, of g1]
    by (simp add: FixedSizeExcerpts_getitem_def py_len_def)
next
  assume h: "len < n \<and> rng_ok g1"
  then have long: "len < n" and ok: "rng_ok g1" by simp_all
  from randint_range[OF ok, of "n - len + 1"]
  obtain pos where p: "pos < n - len + 1" "random_randint (n - len + 1) g1 = Inr (pos, advance g1)"
    by auto
  then have ple: "pos \<le> n - len" by simp
  have "FixedSizeExcerpts_getitem ds len False key idx g =
                 Inr (item(key \<mapsto> Array (window a pos len)), advance g1)"
    using up key shp long crop_random[OF shp long p(2) ple]
    by (simp add: FixedSizeExcerpts_getitem_def py_len_def)
  with ple show "\<exists>pos\<le>n - len.
               FixedSizeExcerpts_getitem ds len False key idx g =
                 Inr (item(key \<mapsto> Array (window a pos len)), advance g1)"
    by blast
next
  fix pos
  assume long: "len < n" and ple: "pos \<le> n - len"
  let ?u = "real pos / real (n - len + 1)"
  have "0 \<le> ?u" by simp
  moreover have "?u < 1" using ple by simp
  moreover have "\<forall>g'. g' 0 = ?u \<longrightarrow>
                  crop (Array a) len False g' = Inr (Array (window a pos len), advance g')"
  proof (intro allI impI)
    fix g' :: rng
    assume g': "g' 0 = ?u"
    have "pos < n - len + 1" using ple by simp
    from randint_hits[of pos "n - len + 1" g', OF this g']
    show "crop (Array a) len False g' = Inr (Array (window a pos len), advance g')"
      using crop_random[OF shp long _ ple] by simp
  qed
  ultimately show "\<exists>u. 0 \<le> u \<and> u < 1 \<and>
               (\<forall>g'. g' 0 = u \<longrightarrow>
                  crop (Array a) len False g' = Inr (Array (window a pos len), advance g'))"
    by blast
next
  assume eq: "n = len"
  have "item(key \<mapsto> Array a) = item" using key by (simp add: map_upd_triv)
  then show "FixedSizeExcerpts_getitem ds len deterministic key idx g = Inr (item, g1)"
    using up key shp eq
    by (simp add: FixedSizeExcerpts_getitem_def py_len_def)
next
  show "crop (Array \<lparr>dtype = d, shape = [6], data = [0, 1, 2, 3, 4, 5]\<rparr>) 4 True g0
            = Inr (Array \<lparr>dtype = d, shape = [4], data = [1, 2, 3, 4]\<rparr>, g0)"
    using crop_deterministic[of "\<lparr>dtype = d, shape = [6], data = [0, 1, 2, 3, 4, 5]\<rparr>" 6 "[]" 4 g0]
    by (simp add: window_def row_size_def)
qed

theorem crop_stage_correct_witness:
  "FixedSizeExcerpts_getitem
       (example_leaf (Array \<lparr>dtype = np_int16, shape = [6], data = [0, 1, 2, 3, 4, 5]\<rparr>))
       4 True ''input'' 0 (\<lambda>i. 1 / 2)
     = Inr ([''input'' \<mapsto> Array \<lparr>dtype = np_int16, shape = [4], data = [1, 2, 3, 4]\<rparr>],
            (\<lambda>i. 1 / 2))
   \<and> rng_ok (\<lambda>i. 1 / 2)
   \<and> (\<exists>pos\<le>2. FixedSizeExcerpts_getitem
       (example_leaf (Array \<lparr>dtype = np_int16, shape = [6], data = [0, 1, 2, 3, 4, 5]\<rparr>))
       4 False ''input'' 0 (\<lambda>i. 1 / 2)
     = Inr ([''input'' \<mapsto> Array (window \<lparr>dtype = np_int16, shape = [6],
                                  data = [0, 1, 2, 3, 4, 5]\<rparr> pos 4)], (\<lambda>i. 1 / 2)))
   \<and> FixedSizeExcerpts_getitem
       (example_leaf (Array \<lparr>dtype = np_int16, shape = [2], data = [7, 8]\<rparr>))
       2 False ''input'' 0 (\<lambda>i. 1 / 2)
     = Inr ([''input'' \<mapsto> Array \<lparr>dtype = np_int16, shape = [2], data = [7, 8]\<rparr>],
            (\<lambda>i. 1 / 2))"
proof -
  have a: "getitem (example_leaf v) 0 (\<lambda>i. 1 / 2) = Inr ([''input'' \<mapsto> v], (\<lambda>i. 1 / 2))" for v
    by (simp add: example_leaf_def)
  have ok: "rng_ok (\<lambda>i. 1 / 2)" by (simp add: rng_ok_def)
  show ?thesis
    using crop_stage_correct[OF a, where key = "''input''"
            and a = "\<lparr>dtype = np_int16, shape = [6], data = [0, 1, 2, 3, 4, 5]\<rparr>"
            and n = 6 and rest = "[]" and len = 4]
          crop_stage_correct[OF a, where key = "''input''"
            and a = "\<lparr>dtype = np_int16, shape = [2], data = [7, 8]\<rparr>"
            and n = 2 and rest = "[]" and len = 2 and deterministic = False]
          ok
    by (simp add: window_def row_size_def advance_def)
qed

subsection \<open>The segment detector\<close>



lemma length_cumsum_from [simp]: "length (cumsum_from acc xs) = length xs"
  by (induction xs arbitrary: acc) simp_all







lemma net_change_Nil [simp]: "net_change [] x = 0"
  by (simp add: net_change_def)




lemma covers_append [simp]: "covers (xs @ ys) x = (covers xs x \<or> covers ys x)"
  by (simp add: covers_def)

lemma covers_Nil [simp]: "\<not> covers [] x"
  by (simp add: covers_def)

lemma positive_length_append [simp]:
  "positive_length (xs @ ys) = positive_length xs @ positive_length ys"
  by (simp add: positive_length_def)






lemma net_change_append [simp]:
  "net_change (xs @ ys) x = net_change xs x + net_change ys x"
  by (simp add: net_change_def)



















text \<open>
  Claim C6, as stated, fails: for the calls \<open>[0, 10)\<close> and \<open>[5, 15)\<close> over 30 samples the
  result is not the single pair \<open>(15, 15)\<close>.
\<close>

theorem overlapping_calls_counterexample:
  "read_noise_csv [''Begin Time (s)'' \<mapsto> [0, 5], ''End Time (s)'' \<mapsto> [10, 15]] 1 30
     \<noteq> Inr [(15, 15)]"
  by code_simp

text \<open>
  Claim C6, amended. The detector returns the zero-length segment \<open>(0, 0)\<close> followed by
  \<open>(15, 15)\<close>, and \<open>(15, 15)\<close> is its only segment of positive length.
\<close>

theorem overlapping_calls_segments:
  "read_noise_csv [''Begin Time (s)'' \<mapsto> [0, 5], ''End Time (s)'' \<mapsto> [10, 15]] 1 30
     = Inr [(0, 0), (15, 15)]
   \<and> positive_length [(0, 0), (15, 15)] = [(15, 15)]"
  by code_simp

text \<open>
  Claim C7, as stated, fails: for the timestamp 2 s the call taken by the code starts at
  0.5 s, not at 1.25 s, and at 4 samples per second over 20 samples the segments differ
  from those of the claimed interval \<open>[1.25, 2.75]\<close> s.
\<close>

theorem point_schema_counterexample:
  "call_intervals [''Time (s)'' \<mapsto> [2], ''Freq (Hz)'' \<mapsto> [1000]] = Inr ([1 / 2], [2])
   \<and> call_intervals [''Time (s)'' \<mapsto> [2], ''Freq (Hz)'' \<mapsto> [1000]]
        \<noteq> Inr ([2 - 0.75], [2 + 0.75])
   \<and> read_noise_csv [''Time (s)'' \<mapsto> [2], ''Freq (Hz)'' \<mapsto> [1000]] 4 20
        = Inr [(0, 2), (8, 12)]
   \<and> read_noise_csv [''Begin Time (s)'' \<mapsto> [2 - 0.75], ''End Time (s)'' \<mapsto> [2 + 0.75]] 4 20
        = Inr [(0, 5), (11, 9)]"
  by code_simp

text \<open>
  Claim C7, amended. With the point-timestamp layout each timestamp \<open>t\<close> gives one call,
  which begins 1.5 seconds before \<open>t\<close>; beginnings and endings are converted to sample
  offsets and swept as for a table of intervals. (Where the call ends is not part of this
  statement: the source's comment assumes calls of 3 seconds.)
\<close>

theorem point_schema_interval:
  assumes "df ''Time (s)'' = Some ts" and "df ''Freq (Hz)'' = Some fs"
  shows "\<exists>endings. call_intervals df = Inr (map (\<lambda>t. t - 1.5) ts, endings)
           \<and> length endings = length ts
           \<and> read_noise_csv df sr L
               = Inr (bird_free_segments
                        (changepoints_of (map (\<lambda>t. t - 1.5) ts) endings sr) L)"
proof -
  let ?e = "map (\<lambda>b. b + 1.5) (map (\<lambda>t. t - 1.5) ts)"
  have c: "call_intervals df = Inr (map (\<lambda>t. t - 1.5) ts, ?e)"
    using assms by (simp add: call_intervals_def Let_def)
  have "length ?e = length ts" by simp
  moreover have "read_noise_csv df sr L
               = Inr (bird_free_segments (changepoints_of (map (\<lambda>t. t - 1.5) ts) ?e sr) L)"
    using c by (simp add: read_noise_csv_def)
  ultimately show ?thesis using c by blast
qed

theorem point_schema_interval_witness:
  "\<exists>endings. call_intervals [''Time (s)'' \<mapsto> [2], ''Freq (Hz)'' \<mapsto> [1000]]
                = Inr ([1 / 2], endings)
      \<and> length endings = 1
      \<and> read_noise_csv [''Time (s)'' \<mapsto> [2], ''Freq (Hz)'' \<mapsto> [1000]] 4 20
          = Inr (bird_free_segments (changepoints_of [1 / 2] endings 4) 20)"
  using point_schema_interval[where df = "[''Time (s)'' \<mapsto> [2], ''Freq (Hz)'' \<mapsto> [1000]]"
      and ts = "[2]" and fs = "[1000]" and sr = 4 and L = 20]
  by simp

subsection \<open>MixBackgroundNoise\<close>

lemma np_zeros_like_idem [simp]: "np_zeros_like (np_zeros_like v) = np_zeros_like v"
  by (cases v) (simp_all add: np_zeros_like_def comp_def)

lemma zero_labels_ok:
  assumes "\<forall>k\<in>set ks. item k \<noteq> None"
  shows "\<exists>item'. zero_labels ks item = Inr item' \<and>
           (\<forall>k. item' k = (if k \<in> set ks then map_option np_zeros_like (item k) else item k))"
  using assms
proof (induction ks arbitrary: item)
  case Nil
  then show ?case by simp
next
  case (Cons k ks)
  then obtain v where v: "item k = Some v" by auto
  let ?it = "item(k \<mapsto> np_zeros_like v)"
  have "\<forall>k'\<in>set ks. ?it k' \<noteq> None" using Cons.prems by simp
  from Cons.IH[OF this] obtain item' where
    r: "zero_labels ks ?it = Inr item'"
    and c: "\<And>k'. item' k' = (if k' \<in> set ks then map_option np_zeros_like (?it k') else ?it k')"
    by blast
  have "zero_labels (k # ks) item = Inr item'" using v r by simp
  moreover have "item' k' = (if k' \<in> set (k # ks) then map_option np_zeros_like (item k') else item k')"
    for k'
    using c[of k'] v by (cases "k' = k") simp_all
  ultimately show ?case by blast
qed


lemma mix_data:
  "map2 (\<lambda>x y. x + y) (map (\<lambda>x. c * x) xs) (map (\<lambda>y. d * y) ys)
     = map2 (\<lambda>x y. c * x + d * y) xs ys"
  by (simp add: zip_map_map split_def comp_def)

lemma fold_max_insert:
  "fold max ys (a :: real) = Max (insert a (set ys))"
proof (induction ys arbitrary: a)
  case Nil
  then show ?case by simp
next
  case (Cons y ys)
  have "fold max (y # ys) a = Max (insert (max y a) (set ys))" using Cons by simp
  also have "\<dots> = Max (insert a (insert y (set ys)))"
    by (cases "set ys = {}") (simp_all add: max.commute max.left_commute max.assoc)
  finally show ?case by simp
qed

lemma fold_max_abs:
  assumes "xs \<noteq> []"
  shows "fold max (map abs xs) (0 :: real) = Max (set (map abs xs))"
proof -
  obtain x where x: "x \<in> set xs" using assms by (cases xs) auto
  have fin: "finite (set (map abs xs))" by simp
  have "\<bar>x\<bar> \<in> set (map abs xs)" using x by simp
  with fin have "\<bar>x\<bar> \<le> Max (set (map abs xs))" by (rule Max_ge)
  then have "0 \<le> Max (set (map abs xs))" by (meson abs_ge_zero order_trans)
  moreover have "set (map abs xs) \<noteq> {}" using assms by simp
  ultimately have "Max (insert 0 (set (map abs xs))) = Max (set (map abs xs))"
    using fin by (simp add: max_def)
  then show ?thesis by (simp add: fold_max_insert)
qed

lemma get_noise_excerpt:
  assumes d: "random_randint (num_items nds) g = Inr (i, g2)"
    and r: "getitem nds i g2 = Inr (nitem, g3)"
    and w: "nitem (mix_key cfg) = Some (Array wav)"
    and e: "max_amp cfg \<noteq> 0 \<longrightarrow> data wav \<noteq> []"
  shows "get_noise nds cfg g = Inr (Array (noise_excerpt cfg wav g3), after_amp cfg g3)"
proof (cases "max_amp cfg = 0")
  case True
  then show ?thesis using d r w
    by (simp add: get_noise_def noise_excerpt_def after_amp_def)
next
  case False
  then have ne: "data wav \<noteq> []" using e by simp
  have m: "fold max (map abs (data wav)) 0 = Max (set (map abs (data wav)))"
    by (rule fold_max_abs[OF ne])
  show ?thesis using d r w False ne
    by (simp add: get_noise_def noise_excerpt_def after_amp_def amp_factor_def peak_amplitude_def
          random_rand_def Let_def m)
qed

lemma zeros_like_array:
  "np_zeros_like (Array a) = Array \<lparr>dtype = dtype a, shape = shape a,
                                     data = replicate (length (data a)) 0\<rparr>"
  by (simp add: np_zeros_like_def map_replicate_const)

lemma noise_only_branch:
  assumes up: "getitem ds idx g = Inr (item, g1)"
    and f: "fires_noise_only cfg g1"
    and n: "get_noise nds cfg (advance g1) = Inr (noise, g3)"
    and l: "\<forall>k\<in>set (label_keys cfg). k = mix_key cfg \<or> item k \<noteq> None"
  shows "\<exists>item'. MixBackgroundNoise_getitem ds nds cfg idx g = Inr (item', g3) \<and>
           (\<forall>k. item' k = (if k \<in> set (label_keys cfg)
                             then map_option np_zeros_like ((item(mix_key cfg \<mapsto> noise)) k)
                             else (item(mix_key cfg \<mapsto> noise)) k))"
proof -
  have "\<forall>k\<in>set (label_keys cfg). (item(mix_key cfg \<mapsto> noise)) k \<noteq> None" using l by auto
  from zero_labels_ok[OF this] obtain item' where
    z: "zero_labels (label_keys cfg) (item(mix_key cfg \<mapsto> noise)) = Inr item'"
    and c: "\<forall>k. item' k = (if k \<in> set (label_keys cfg)
                             then map_option np_zeros_like ((item(mix_key cfg \<mapsto> noise)) k)
                             else (item(mix_key cfg \<mapsto> noise)) k)"
    by blast
  have "MixBackgroundNoise_getitem ds nds cfg idx g = Inr (item', g3)"
    using up f n z
    by (simp add: MixBackgroundNoise_getitem_def fires_noise_only_def random_rand_def Let_def)
  with c show ?thesis by blast
qed

lemma float32_max_ge_one: "1 \<le> float32_max"
  by (simp add: float32_max_def)

lemma scale_dtype_float32:
  assumes "\<bar>c\<bar> \<le> 1" "shape a \<noteq> []" "dtype a = np_float32"
  shows "scale_dtype c a = np_float32"
  using assms float32_max_ge_one by (simp add: scale_dtype_def)

lemma scale_dtype_float64:
  assumes "shape a = [] \<or> dtype a \<noteq> np_float32"
  shows "scale_dtype c a = np_float64"
  using assms by (auto simp: scale_dtype_def)

lemma add_dtype_same_shape:
  "shape a = shape b \<Longrightarrow> add_dtype a b = promote_types (dtype a) (dtype b)"
  by (simp add: add_dtype_def)

lemma mix_branch:
  assumes up: "getitem ds idx g = Inr (item, g1)"
    and nf: "\<not> fires_noise_only cfg g1"
    and f: "fires_mix cfg (after_noise_only cfg g1)"
    and k: "item (mix_key cfg) = Some (Array a)"
    and n: "get_noise nds cfg (advance (after_mix cfg (after_noise_only cfg g1))) = Inr (Array b, g5)"
    and s: "shape b = shape a"
  shows "MixBackgroundNoise_getitem ds nds cfg idx g =
           Inr (item(mix_key cfg \<mapsto>
                  Array \<lparr>dtype = promote_types
                                   (scale_dtype (1 - mix_weight cfg (after_mix cfg (after_noise_only cfg g1))) a)
                                   (scale_dtype (mix_weight cfg (after_mix cfg (after_noise_only cfg g1))) b),
                         shape = shape a,
                         data = map2 (\<lambda>x y. (1 - mix_weight cfg (after_mix cfg (after_noise_only cfg g1))) * x
                                          + mix_weight cfg (after_mix cfg (after_noise_only cfg g1)) * y)
                                  (data a) (data b)\<rparr>), g5)"
  using up nf f k n s
  by (auto simp: MixBackgroundNoise_getitem_def fires_noise_only_def fires_mix_def
        after_noise_only_def after_mix_def mix_weight_def random_rand_def Let_def
        py_scale_def py_add_def np_add_def mix_data add_dtype_same_shape)

lemma pass_branch:
  assumes up: "getitem ds idx g = Inr (item, g1)"
    and nf: "\<not> fires_noise_only cfg g1"
    and f: "\<not> fires_mix cfg (after_noise_only cfg g1)"
  shows "MixBackgroundNoise_getitem ds nds cfg idx g =
           Inr (item, after_mix cfg (after_noise_only cfg g1))"
  using up nf f
  by (auto simp: MixBackgroundNoise_getitem_def fires_noise_only_def fires_mix_def
        after_noise_only_def after_mix_def random_rand_def Let_def)

lemma mix_weight_range:
  assumes "min_factor cfg \<le> max_factor cfg" "0 \<le> g 0" "g 0 < 1"
  shows "min_factor cfg \<le> mix_weight cfg g \<and> mix_weight cfg g \<le> max_factor cfg"
proof -
  let ?d = "max_factor cfg - min_factor cfg"
  have d: "0 \<le> ?d" using assms(1) by simp
  have "0 \<le> g 0 * ?d" using assms(2) d by simp
  moreover have "g 0 * ?d \<le> 1 * ?d" using assms(3) d by (intro mult_right_mono) simp_all
  ultimately show ?thesis by (simp add: mix_weight_def)
qed

lemma noise_only_fields:
  assumes up: "getitem ds idx g = Inr (item, g1)"
    and f: "fires_noise_only cfg g1"
    and d: "random_randint (num_items nds) (advance g1) = Inr (i, g2)"
    and r: "getitem nds i g2 = Inr (nitem, g3)"
    and w: "nitem (mix_key cfg) = Some (Array wav)"
    and e: "max_amp cfg \<noteq> 0 \<longrightarrow> data wav \<noteq> []"
    and l: "\<forall>k\<in>set (label_keys cfg). k = mix_key cfg \<or> item k \<noteq> None"
  shows "\<exists>item'. MixBackgroundNoise_getitem ds nds cfg idx g = Inr (item', after_amp cfg g3)
           \<and> item' (mix_key cfg)
               = Some (if mix_key cfg \<in> set (label_keys cfg)
                       then np_zeros_like (Array (noise_excerpt cfg wav g3))
                       else Array (noise_excerpt cfg wav g3))
           \<and> (\<forall>k\<in>set (label_keys cfg). k \<noteq> mix_key cfg \<longrightarrow>
                 (\<forall>a. item k = Some (Array a) \<longrightarrow>
                    item' k = Some (Array \<lparr>dtype = dtype a, shape = shape a,
                                            data = replicate (length (data a)) 0\<rparr>))
                 \<and> (\<forall>s. item k = Some (Str s) \<longrightarrow> item' k = Some (Str [])))
           \<and> (\<forall>k. k \<notin> set (label_keys cfg) \<and> k \<noteq> mix_key cfg \<longrightarrow> item' k = item k)"
proof -
  have n: "get_noise nds cfg (advance g1) = Inr (Array (noise_excerpt cfg wav g3), after_amp cfg g3)"
    by (rule get_noise_excerpt[OF d r w e])
  from noise_only_branch[OF up f n l] obtain item' where
    res: "MixBackgroundNoise_getitem ds nds cfg idx g = Inr (item', after_amp cfg g3)"
    and c: "\<And>k. item' k = (if k \<in> set (label_keys cfg)
               then map_option np_zeros_like
                      ((item(mix_key cfg \<mapsto> Array (noise_excerpt cfg wav g3))) k)
               else (item(mix_key cfg \<mapsto> Array (noise_excerpt cfg wav g3))) k)"
    by blast
  have k1: "item' (mix_key cfg)
               = Some (if mix_key cfg \<in> set (label_keys cfg)
                       then np_zeros_like (Array (noise_excerpt cfg wav g3))
                       else Array (noise_excerpt cfg wav g3))"
    using c[of "mix_key cfg"] by simp
  have k2: "\<forall>k\<in>set (label_keys cfg). k \<noteq> mix_key cfg \<longrightarrow>
                 (\<forall>a. item k = Some (Array a) \<longrightarrow>
                    item' k = Some (Array \<lparr>dtype = dtype a, shape = shape a,
                                            data = replicate (length (data a)) 0\<rparr>))
                 \<and> (\<forall>s. item k = Some (Str s) \<longrightarrow> item' k = Some (Str []))"
    using c by (auto simp: zeros_like_array) (simp add: np_zeros_like_def)
  have k3: "\<forall>k. k \<notin> set (label_keys cfg) \<and> k \<noteq> mix_key cfg \<longrightarrow> item' k = item k"
    using c by simp
  show ?thesis using res k1 k2 k3 by blast
qed

text \<open>
  Claim C2. After the upstream item is read: if the noise-only branch fires, a noise item
  is read at an index drawn from the tape, the field under the key becomes the excerpt of
  that item, every other array field of \<open>label_keys\<close> becomes an array of zeros of its
  shape and type, and all remaining fields are kept; otherwise, if the mixing branch fires
  (it always does for probability 1), a noise excerpt is drawn in the same way and the
  field becomes \<open>(1 - w) * original + w * noise\<close> with the weight \<open>w\<close> in
  \<open>[min_factor, max_factor]\<close>, and \<open>w = 1/4\<close>, \<open>1 - w = 3/4\<close> when both factors are one
  quarter; if neither fires the item is returned as it is.
\<close>

theorem mix_background_noise_correct:
  assumes up: "getitem ds idx g = Inr (item, g1)"
  shows "(fires_noise_only cfg g1
          \<and> random_randint (num_items nds) (advance g1) = Inr (i, g2)
          \<and> getitem nds i g2 = Inr (nitem, g3)
          \<and> nitem (mix_key cfg) = Some (Array wav)
          \<and> (max_amp cfg \<noteq> 0 \<longrightarrow> data wav \<noteq> [])
          \<and> (\<forall>k\<in>set (label_keys cfg). k = mix_key cfg \<or> item k \<noteq> None)
          \<longrightarrow> (\<exists>item'. MixBackgroundNoise_getitem ds nds cfg idx g = Inr (item', after_amp cfg g3)
                \<and> item' (mix_key cfg)
                    = Some (if mix_key cfg \<in> set (label_keys cfg)
                            then np_zeros_like (Array (noise_excerpt cfg wav g3))
                            else Array (noise_excerpt cfg wav g3))
                \<and> (\<forall>k\<in>set (label_keys cfg). k \<noteq> mix_key cfg \<longrightarrow>
                      (\<forall>a. item k = Some (Array a) \<longrightarrow>
                         item' k = Some (Array \<lparr>dtype = dtype a, shape = shape a,
                                                 data = replicate (length (data a)) 0\<rparr>))
                      \<and> (\<forall>s. item k = Some (Str s) \<longrightarrow> item' k = Some (Str [])))
                \<and> (\<forall>k. k \<notin> set (label_keys cfg) \<and> k \<noteq> mix_key cfg \<longrightarrow> item' k = item k)))
       \<and> (\<not> fires_noise_only cfg g1
          \<and> fires_mix cfg (after_noise_only cfg g1)
          \<and> item (mix_key cfg) = Some (Array a)
          \<and> random_randint (num_items nds) (advance (after_mix cfg (after_noise_only cfg g1)))
              = Inr (i, g2)
          \<and> getitem nds i g2 = Inr (nitem, g3)
          \<and> nitem (mix_key cfg) = Some (Array wav)
          \<and> (max_amp cfg \<noteq> 0 \<longrightarrow> data wav \<noteq> [])
          \<and> shape wav = shape a
          \<longrightarrow> MixBackgroundNoise_getitem ds nds cfg idx g =
                Inr (item(mix_key cfg \<mapsto>
                  Array \<lparr>dtype = promote_types
                                   (scale_dtype (1 - mix_weight cfg (after_mix cfg (after_noise_only cfg g1))) a)
                                   (scale_dtype (mix_weight cfg (after_mix cfg (after_noise_only cfg g1)))
                                      (noise_excerpt cfg wav g3)),
                         shape = shape a,
                         data = map2 (\<lambda>x y. (1 - mix_weight cfg (after_mix cfg (after_noise_only cfg g1))) * x
                                          + mix_weight cfg (after_mix cfg (after_noise_only cfg g1)) * y)
                                  (data a) (data (noise_excerpt cfg wav g3))\<rparr>),
                     after_amp cfg g3))
       \<and> (\<not> fires_noise_only cfg g1 \<and> \<not> fires_mix cfg (after_noise_only cfg g1)
          \<longrightarrow> MixBackgroundNoise_getitem ds nds cfg idx g =
                Inr (item, after_mix cfg (after_noise_only cfg g1)))
       \<and> (probability cfg = 1 \<longrightarrow> fires_mix cfg g')
       \<and> (min_factor cfg \<le> max_factor cfg \<and> 0 \<le> g' 0 \<and> g' 0 < 1
          \<longrightarrow> min_factor cfg \<le> mix_weight cfg g' \<and> mix_weight cfg g' \<le> max_factor cfg)
       \<and> (min_factor cfg = 1 / 4 \<and> max_factor cfg = 1 / 4
          \<longrightarrow> mix_weight cfg g' = 1 / 4 \<and> 1 - mix_weight cfg g' = 3 / 4)"
proof (intro conjI impI)
  assume h: "fires_noise_only cfg g1
          \<and> random_randint (num_items nds) (advance g1) = Inr (i, g2)
          \<and> getitem nds i g2 = Inr (nitem, g3)
          \<and> nitem (mix_key cfg) = Some (Array wav)
          \<and> (max_amp cfg \<noteq> 0 \<longrightarrow> data wav \<noteq> [])
          \<and> (\<forall>k\<in>set (label_keys cfg). k = mix_key cfg \<or> item k \<noteq> None)"
  show "\<exists>item'. MixBackgroundNoise_getitem ds nds cfg idx g = Inr (item', after_amp cfg g3)
                \<and> item' (mix_key cfg)
                    = Some (if mix_key cfg \<in> set (label_keys cfg)
                            then np_zeros_like (Array (noise_excerpt cfg wav g3))
                            else Array (noise_excerpt cfg wav g3))
                \<and> (\<forall>k\<in>set (label_keys cfg). k \<noteq> mix_key cfg \<longrightarrow>
                      (\<forall>a. item k = Some (Array a) \<longrightarrow>
                         item' k = Some (Array \<lparr>dtype = dtype a, shape = shape a,
                                                 data = replicate (length (data a)) 0\<rparr>))
                      \<and> (\<forall>s. item k = Some (Str s) \<longrightarrow> item' k = Some (Str [])))
                \<and> (\<forall>k. k \<notin> set (label_keys cfg) \<and> k \<noteq> mix_key cfg \<longrightarrow> item' k = item k)"
    by (rule noise_only_fields[OF up h[THEN conjunct1] h[THEN conjunct2, THEN conjunct1]
          h[THEN conjunct2, THEN conjunct2, THEN conjunct1]
          h[THEN conjunct2, THEN conjunct2, THEN conjunct2, THEN conjunct1]
          h[THEN conjunct2, THEN conjunct2, THEN conjunct2, THEN conjunct2, THEN conjunct1]
          h[THEN conjunct2, THEN conjunct2, THEN conjunct2, THEN conjunct2, THEN conjunct2]])
next
  assume h: "\<not> fires_noise_only cfg g1
          \<and> fires_mix cfg (after_noise_only cfg g1)
          \<and> item (mix_key cfg) = Some (Array a)
          \<and> random_randint (num_items nds) (advance (after_mix cfg (after_noise_only cfg g1)))
              = Inr (i, g2)
          \<and> getitem nds i g2 = Inr (nitem, g3)
          \<and> nitem (mix_key cfg) = Some (Array wav)
          \<and> (max_amp cfg \<noteq> 0 \<longrightarrow> data wav \<noteq> [])
          \<and> shape wav = shape a"
  from h have d: "random_randint (num_items nds) (advance (after_mix cfg (after_noise_only cfg g1)))
              = Inr (i, g2)"
    and r: "getitem nds i g2 = Inr (nitem, g3)"
    and w: "nitem (mix_key cfg) = Some (Array wav)"
    and e: "max_amp cfg \<noteq> 0 \<longrightarrow> data wav \<noteq> []"
    by simp_all
  have n: "get_noise nds cfg (advance (after_mix cfg (after_noise_only cfg g1)))
             = Inr (Array (noise_excerpt cfg wav g3), after_amp cfg g3)"
    by (rule get_noise_excerpt[OF d r w e])
  have s: "shape (noise_excerpt cfg wav g3) = shape a"
    using h by (simp add: noise_excerpt_def)
  show "MixBackgroundNoise_getitem ds nds cfg idx g =
                Inr (item(mix_key cfg \<mapsto>
                  Array \<lparr>dtype = promote_types
                                   (scale_dtype (1 - mix_weight cfg (after_mix cfg (after_noise_only cfg g1))) a)
                                   (scale_dtype (mix_weight cfg (after_mix cfg (after_noise_only cfg g1)))
                                      (noise_excerpt cfg wav g3)),
                         shape = shape a,
                         data = map2 (\<lambda>x y. (1 - mix_weight cfg (after_mix cfg (after_noise_only cfg g1))) * x
                                          + mix_weight cfg (after_mix cfg (after_noise_only cfg g1)) * y)
                                  (data a) (data (noise_excerpt cfg wav g3))\<rparr>),
                     after_amp cfg g3)"
    by (rule mix_branch[OF up _ _ _ n s]) (use h in simp_all)
next
  assume "\<not> fires_noise_only cfg g1 \<and> \<not> fires_mix cfg (after_noise_only cfg g1)"
  then show "MixBackgroundNoise_getitem ds nds cfg idx g =
                Inr (item, after_mix cfg (after_noise_only cfg g1))"
    using pass_branch[OF up, of cfg nds] by blast
next
  assume "probability cfg = 1"
  then show "fires_mix cfg g'" by (simp add: fires_mix_def)
next
  assume h: "min_factor cfg \<le> max_factor cfg \<and> 0 \<le> g' 0 \<and> g' 0 < 1"
  then show "min_factor cfg \<le> mix_weight cfg g'" using mix_weight_range[of cfg g'] by blast
  from h show "mix_weight cfg g' \<le> max_factor cfg" using mix_weight_range[of cfg g'] by blast
next
  assume h: "min_factor cfg = 1 / 4 \<and> max_factor cfg = 1 / 4"
  then show "mix_weight cfg g' = 1 / 4" by (simp add: mix_weight_def)
  from h show "1 - mix_weight cfg g' = 3 / 4" by (simp add: mix_weight_def)
qed

theorem mix_background_noise_correct_witness:
  "result_field (MixBackgroundNoise_getitem (the_dataset example_birdcalls)
       (example_leaf (Array \<lparr>dtype = np_float32, shape = [3], data = [2, - 4, 1]\<rparr>))
       example_noise_only_config 0 (\<lambda>i. 1 / 2)) ''input''
     = Some (Array \<lparr>dtype = np_float32, shape = [3], data = [1 / 2, - 1, 1 / 4]\<rparr>)
   \<and> result_field (MixBackgroundNoise_getitem (the_dataset example_birdcalls)
       (example_leaf (Array \<lparr>dtype = np_float32, shape = [3], data = [2, - 4, 1]\<rparr>))
       example_noise_only_config 0 (\<lambda>i. 1 / 2)) ''label_bg''
     = Some (Array \<lparr>dtype = np_uint8, shape = [2], data = [0, 0]\<rparr>)
   \<and> result_field (MixBackgroundNoise_getitem (the_dataset example_birdcalls)
       (example_leaf (Array \<lparr>dtype = np_float32, shape = [3], data = [2, - 4, 1]\<rparr>))
       example_noise_only_config 0 (\<lambda>i. 1 / 2)) ''label_all''
     = Some (Array \<lparr>dtype = np_float32, shape = [2], data = [1 / 2, 0]\<rparr>)
   \<and> MixBackgroundNoise_getitem
       (example_leaf (Array \<lparr>dtype = np_float32, shape = [2], data = [1, 2]\<rparr>))
       (example_leaf (Array \<lparr>dtype = np_float32, shape = [2], data = [4, 8]\<rparr>))
       example_mix_config 0 (\<lambda>i. 1 / 2)
     = Inr ([''input'' \<mapsto> Array \<lparr>dtype = np_float32, shape = [2], data = [7 / 4, 7 / 2]\<rparr>],
            (\<lambda>i. 1 / 2))"
proof -
  let ?g = "(\<lambda>i. 1 / 2) :: rng"
  have adv: "advance ?g = ?g" by (simp add: advance_def)
  have sd: "scale_dtype (1 / 4) \<lparr>dtype = np_float32, shape = [n], data = xs\<rparr> = np_float32"
    "scale_dtype (3 / 4) \<lparr>dtype = np_float32, shape = [n], data = xs\<rparr> = np_float32" for n xs
    by (simp_all add: scale_dtype_float32)
  let ?bd = "the_dataset example_birdcalls"
  let ?wav = "\<lparr>dtype = np_float32, shape = [3], data = [2, - 4, 1]\<rparr>"
  let ?nd = "example_leaf (Array ?wav)"
  let ?c = example_noise_only_config
  let ?item = "[''itemid'' \<mapsto> Str ''a'',
                ''input'' \<mapsto> Array \<lparr>dtype = np_float32, shape = [3], data = [1, 2, 3]\<rparr>,
                ''label_bg'' \<mapsto> Array \<lparr>dtype = np_uint8, shape = [2], data = [1, 0]\<rparr>,
                ''label_all'' \<mapsto> Array \<lparr>dtype = np_float32, shape = [2], data = [1 / 2, 0]\<rparr>]"
  have up1: "getitem ?bd 0 ?g = Inr (?item, ?g)"
    by (simp add: the_dataset_def example_birdcalls_def BirdcallDataset_def common_shape_def
          BirdcallDataset_getitem_def label_columns_def)
  have fn: "fires_noise_only ?c ?g"
    by (simp add: fires_noise_only_def example_noise_only_config_def)
  have dr: "random_randint (num_items ?nd) (advance ?g) = Inr (0, ?g)"
    by (simp add: random_randint_def example_leaf_def adv)
  have rd: "getitem ?nd 0 ?g = Inr ([''input'' \<mapsto> Array ?wav], ?g)"
    by (simp add: example_leaf_def)
  have cf: "mix_key ?c = ''input''" "label_keys ?c = [''label_bg'']" "max_amp ?c = 1"
    by (simp_all add: example_noise_only_config_def)
  have pk: "peak_amplitude ?wav = 4" by (simp add: peak_amplitude_def)
  have af: "amp_factor ?c ?g = 1" by (simp add: amp_factor_def example_noise_only_config_def)
  have ex: "noise_excerpt ?c ?wav ?g
              = \<lparr>dtype = np_float32, shape = [3], data = [1 / 2, - 1, 1 / 4]\<rparr>"
    unfolding noise_excerpt_def cf pk af by (simp add: sd)
  have aa: "after_amp ?c ?g = ?g" by (simp add: after_amp_def example_noise_only_config_def)
  have hyp: "fires_noise_only ?c ?g
          \<and> random_randint (num_items ?nd) (advance ?g) = Inr (0, ?g)
          \<and> getitem ?nd 0 ?g = Inr ([''input'' \<mapsto> Array ?wav], ?g)
          \<and> [''input'' \<mapsto> Array ?wav] (mix_key ?c) = Some (Array ?wav)
          \<and> (max_amp ?c \<noteq> 0 \<longrightarrow> data ?wav \<noteq> [])
          \<and> (\<forall>k\<in>set (label_keys ?c). k = mix_key ?c \<or> ?item k \<noteq> None)"
    using fn dr rd by (simp add: cf)
  note T = mix_background_noise_correct[OF up1, where cfg = ?c and nds = ?nd and i = 0
        and ?g2.0 = ?g and ?g3.0 = ?g and nitem = "[''input'' \<mapsto> Array ?wav]" and wav = ?wav,
        THEN conjunct1, THEN mp, OF hyp]
  from T obtain item' where
    r: "MixBackgroundNoise_getitem ?bd ?nd ?c 0 ?g = Inr (item', after_amp ?c ?g)"
    and k1: "item' (mix_key ?c)
               = Some (if mix_key ?c \<in> set (label_keys ?c)
                       then np_zeros_like (Array (noise_excerpt ?c ?wav ?g))
                       else Array (noise_excerpt ?c ?wav ?g))"
    and k2: "\<forall>k\<in>set (label_keys ?c). k \<noteq> mix_key ?c \<longrightarrow>
                 (\<forall>a. ?item k = Some (Array a) \<longrightarrow>
                    item' k = Some (Array \<lparr>dtype = dtype a, shape = shape a,
                                            data = replicate (length (data a)) 0\<rparr>))
                 \<and> (\<forall>s. ?item k = Some (Str s) \<longrightarrow> item' k = Some (Str []))"
    and k3: "\<forall>k. k \<notin> set (label_keys ?c) \<and> k \<noteq> mix_key ?c \<longrightarrow> item' k = ?item k"
    by (elim exE conjE)
  have i1: "item' ''input'' = Some (Array \<lparr>dtype = np_float32, shape = [3], data = [1 / 2, - 1, 1 / 4]\<rparr>)"
    using k1 unfolding cf ex by simp
  have "\<forall>a. ?item ''label_bg'' = Some (Array a) \<longrightarrow>
                    item' ''label_bg'' = Some (Array \<lparr>dtype = dtype a, shape = shape a,
                                            data = replicate (length (data a)) 0\<rparr>)"
    using k2 unfolding cf by simp
  then have i2: "item' ''label_bg'' = Some (Array \<lparr>dtype = np_uint8, shape = [2], data = [0, 0]\<rparr>)"
    by (simp add: numeral_2_eq_2)
  have "item' ''label_all'' = ?item ''label_all''"
    using k3 unfolding cf by simp
  then have i3: "item' ''label_all'' = Some (Array \<lparr>dtype = np_float32, shape = [2], data = [1 / 2, 0]\<rparr>)"
    by simp
  have N1: "MixBackgroundNoise_getitem ?bd ?nd ?c 0 ?g = Inr (item', ?g)"
    using r unfolding aa .
  let ?ds = "example_leaf (Array \<lparr>dtype = np_float32, shape = [2], data = [1, 2]\<rparr>)"
  let ?nds = "example_leaf (Array \<lparr>dtype = np_float32, shape = [2], data = [4, 8]\<rparr>)"
  have up: "getitem ?ds 0 ?g = Inr ([''input'' \<mapsto> Array \<lparr>dtype = np_float32, shape = [2], data = [1, 2]\<rparr>], ?g)"
    by (simp add: example_leaf_def)
  have dr2: "random_randint (num_items ?nds) ?g = Inr (0, ?g)"
    by (simp add: random_randint_def example_leaf_def adv)
  have rd2: "getitem ?nds 0 ?g = Inr ([''input'' \<mapsto> Array \<lparr>dtype = np_float32, shape = [2], data = [4, 8]\<rparr>], ?g)"
    by (simp add: example_leaf_def)
  have f1: "\<not> fires_noise_only example_mix_config ?g"
    by (simp add: fires_noise_only_def example_mix_config_def)
  have a1: "after_noise_only example_mix_config ?g = ?g"
    by (simp add: after_noise_only_def example_mix_config_def)
  have a2: "after_mix example_mix_config ?g = ?g"
    by (simp add: after_mix_def example_mix_config_def)
  have f2: "fires_mix example_mix_config ?g"
    by (simp add: fires_mix_def example_mix_config_def)
  have w: "mix_weight example_mix_config ?g = 1 / 4"
    by (simp add: mix_weight_def example_mix_config_def)
  have k: "mix_key example_mix_config = ''input''" "max_amp example_mix_config = 0"
    by (simp_all add: example_mix_config_def)
  have ex2: "noise_excerpt example_mix_config a ?g = a" for a
    by (simp add: noise_excerpt_def k)
  have aa2: "after_amp example_mix_config ?g = ?g" by (simp add: after_amp_def k)
  have M: "MixBackgroundNoise_getitem ?ds ?nds example_mix_config 0 ?g
     = Inr ([''input'' \<mapsto> Array \<lparr>dtype = np_float32, shape = [2], data = [7 / 4, 7 / 2]\<rparr>], ?g)"
    using mix_background_noise_correct[OF up, where cfg = example_mix_config and nds = ?nds
        and a = "\<lparr>dtype = np_float32, shape = [2], data = [1, 2]\<rparr>" and i = 0
        and ?g2.0 = ?g and ?g3.0 = ?g
        and nitem = "[''input'' \<mapsto> Array \<lparr>dtype = np_float32, shape = [2], data = [4, 8]\<rparr>]"
        and wav = "\<lparr>dtype = np_float32, shape = [2], data = [4, 8]\<rparr>",
        THEN conjunct2, THEN conjunct1]
    by (simp add: f1 a1 a2 f2 w k dr2 rd2 ex2 aa2 adv sd promote_types_def)
  show ?thesis using N1 i1 i2 i3 M by (simp add: result_field_def)
qed

subsection \<open>DownmixChannels\<close>

lemma concat_blocks_nth:
  assumes "b < p" "i < m"
  shows "concat (map (\<lambda>b. map (f b) [0..<m]) [0..<p]) ! (b * m + i) = f b i"
  using assms
proof (induction p)
  case 0
  then show ?case by simp
next
  case (Suc p)
  have len: "length (concat (map (\<lambda>b. map (f b) [0..<m]) [0..<p])) = p * m"
    by (induction p) simp_all
  show ?case
  proof (cases "b < p")
    case True
    have "b * m + i < p * m"
    proof -
      have "b * m + i < b * m + m" using Suc.prems(2) by simp
      also have "\<dots> = Suc b * m" by simp
      also have "\<dots> \<le> p * m" using True by (intro mult_le_mono1) simp
      finally show ?thesis .
    qed
    then show ?thesis using Suc.IH[OF True Suc.prems(2)] len by (simp add: nth_append)
  next
    case False
    then have "b = p" using Suc.prems(1) by simp
    then show ?thesis using len Suc.prems(2) by (simp add: nth_append)
  qed
qed

lemma concat_blocks_length:
  "length (concat (map (\<lambda>b. map (f b) [0..<m]) [0..<p])) = p * m"
  by (induction p) simp_all

lemma unit_weights_sum:
  "sum_list (map (\<lambda>j. replicate n 1 ! j * f j) [0..<n]) = (\<Sum>j<n. (f j :: real))"
proof -
  have "map (\<lambda>j. replicate n 1 ! j * f j) [0..<n] = map f [0..<n]"
    by (rule map_cong) simp_all
  then show ?thesis by (simp add: interv_sum_list_conv_sum_set_nat atLeast0LessThan)
qed

lemma mean_keepdims_nth:
  assumes "b < prod_list (take k (shape a))" "i < prod_list (drop (Suc k) (shape a))"
  shows "data (np_mean_keepdims a k) ! (b * prod_list (drop (Suc k) (shape a)) + i)
           = (\<Sum>j<shape a ! k.
                 data a ! ((b * (shape a ! k) + j) * prod_list (drop (Suc k) (shape a)) + i))
             / real (shape a ! k)"
proof -
  let ?inner = "prod_list (drop (Suc k) (shape a))"
  let ?outer = "prod_list (take k (shape a))"
  let ?n = "shape a ! k"
  let ?f = "\<lambda>b i. sum_list (map (\<lambda>j. replicate ?n 1 ! j * (data a ! ((b * ?n + j) * ?inner + i))) [0..<?n])"
  have w: "weighted_sum_axis (replicate ?n 1) a k = concat (map (\<lambda>b. map (?f b) [0..<?inner]) [0..<?outer])"
    by (simp add: weighted_sum_axis_def Let_def)
  have lt: "b * ?inner + i < length (weighted_sum_axis (replicate ?n 1) a k)"
  proof -
    have "b * ?inner + i < b * ?inner + ?inner" using assms(2) by simp
    also have "\<dots> = Suc b * ?inner" by simp
    also have "\<dots> \<le> ?outer * ?inner" using assms(1) by (intro mult_le_mono1) simp
    finally show ?thesis unfolding w by (simp only: concat_blocks_length)
  qed
  have "weighted_sum_axis (replicate ?n 1) a k ! (b * ?inner + i) = ?f b i"
    unfolding w by (rule concat_blocks_nth[OF assms])
  then show ?thesis
    using lt by (simp add: np_mean_keepdims_def unit_weights_sum)
qed

lemma py_index_bound: "py_index n i = Some k \<Longrightarrow> k < n"
  by (auto simp: py_index_def split: if_splits)

lemma downmix_average:
  assumes "getitem ds idx g = Inr (item, g1)" "item key = Some (Array wav)"
    "py_index (length (shape wav)) axis = Some k" "shape wav ! k > 1"
  shows "DownmixChannels_getitem ds key axis ''average'' idx g
           = Inr (item(key \<mapsto> Array (np_mean_keepdims wav k)), g1)"
  using assms by (simp add: DownmixChannels_getitem_def Let_def)

lemma downmix_single:
  assumes "getitem ds idx g = Inr (item, g1)" "item key = Some (Array wav)"
    "py_index (length (shape wav)) axis = Some k" "shape wav ! k \<le> 1"
  shows "DownmixChannels_getitem ds key axis method idx g = Inr (item, g1)"
proof -
  have "item(key \<mapsto> Array wav) = item" using assms(2) by (simp add: map_upd_triv)
  then show ?thesis using assms by (simp add: DownmixChannels_getitem_def Let_def)
qed

lemma downmix_schema:
  assumes "DownmixChannels ds key axis method = Inr w"
  shows "\<exists>s k. shapes ds key = Some s \<and> py_index (length s) axis = Some k \<and> k < length s
           \<and> shapes w key = Some (s[k := Some 1]) \<and> s[k := Some 1] ! k = Some 1
           \<and> (\<forall>k'. k' \<noteq> key \<longrightarrow> shapes w k' = shapes ds k')
           \<and> dtypes w = dtypes ds"
  using assms
  by (auto simp: DownmixChannels_def split: option.splits dest: py_index_bound)

lemma downmix_construct:
  assumes "shapes ds key = Some s" "py_index (length s) axis = Some k"
  shows "\<exists>w. DownmixChannels ds key axis method = Inr w
           \<and> shapes w key = Some (s[k := Some 1]) \<and> k < length s \<and> s[k := Some 1] ! k = Some 1
           \<and> (\<forall>k'. k' \<noteq> key \<longrightarrow> shapes w k' = shapes ds k')
           \<and> dtypes w = dtypes ds
           \<and> getitem w = DownmixChannels_getitem ds key axis method"
  using assms py_index_bound[OF assms(2)] by (simp add: DownmixChannels_def)

text \<open>
  Claim C8. With the method \<^verbatim>\<open>average\<close> and more than one channel on the configured
  axis, the field under the key becomes the mean over that axis (the sum of the channels
  divided by their number, at every position of the other axes) with the axis kept at
  size 1; with at most one channel the item is returned as it is. The wrapper is
  constructed whenever the upstream schema has the key and the axis is one of its shape,
  and only then; its schema has size 1 at that axis of the key's shape and its accesses
  are the ones described. The two channels \<^verbatim>\<open>[[2,2],[4,4]]\<close> average to the single row
  \<^verbatim>\<open>[3,3]\<close>.
\<close>

theorem downmix_average_correct:
  assumes up: "getitem ds idx g = Inr (item, g1)"
    and key: "item key = Some (Array wav)"
    and ax: "py_index (length (shape wav)) axis = Some k"
  shows "(shape wav ! k > 1 \<longrightarrow>
            DownmixChannels_getitem ds key axis ''average'' idx g
              = Inr (item(key \<mapsto> Array (np_mean_keepdims wav k)), g1)
            \<and> shape (np_mean_keepdims wav k) = (shape wav)[k := 1]
            \<and> (\<forall>b<prod_list (take k (shape wav)). \<forall>i<prod_list (drop (Suc k) (shape wav)).
                  data (np_mean_keepdims wav k) ! (b * prod_list (drop (Suc k) (shape wav)) + i)
                    = (\<Sum>j<shape wav ! k.
                          data wav ! ((b * (shape wav ! k) + j)
                                      * prod_list (drop (Suc k) (shape wav)) + i))
                      / real (shape wav ! k)))
       \<and> (shape wav ! k \<le> 1 \<longrightarrow>
            DownmixChannels_getitem ds key axis ''average'' idx g = Inr (item, g1))
       \<and> (\<forall>s k'. shapes ds key = Some s \<and> py_index (length s) axis = Some k' \<longrightarrow>
            (\<exists>w. DownmixChannels ds key axis ''average'' = Inr w
               \<and> shapes w key = Some (s[k' := Some 1]) \<and> k' < length s
               \<and> s[k' := Some 1] ! k' = Some 1
               \<and> getitem w = DownmixChannels_getitem ds key axis ''average''))
       \<and> (\<forall>w. DownmixChannels ds key axis ''average'' = Inr w \<longrightarrow>
            (\<exists>s k'. shapes ds key = Some s \<and> py_index (length s) axis = Some k' \<and> k' < length s
               \<and> shapes w key = Some (s[k' := Some 1]) \<and> s[k' := Some 1] ! k' = Some 1))
       \<and> np_mean_keepdims \<lparr>dtype = d, shape = [2, 2], data = [2, 2, 4, 4]\<rparr> 0
            = \<lparr>dtype = float_result d, shape = [1, 2], data = [3, 3]\<rparr>"
proof (intro conjI impI allI)
  assume many: "shape wav ! k > 1"
  show "DownmixChannels_getitem ds key axis ''average'' idx g
              = Inr (item(key \<mapsto> Array (np_mean_keepdims wav k)), g1)"
    by (rule downmix_average[OF up key ax many])
  show "shape (np_mean_keepdims wav k) = (shape wav)[k := 1]"
    by (simp add: np_mean_keepdims_def)
  fix b i
  assume "b < prod_list (take k (shape wav))" "i < prod_list (drop (Suc k) (shape wav))"
  then show "data (np_mean_keepdims wav k) ! (b * prod_list (drop (Suc k) (shape wav)) + i)
                    = (\<Sum>j<shape wav ! k.
                          data wav ! ((b * (shape wav ! k) + j)
                                      * prod_list (drop (Suc k) (shape wav)) + i))
                      / real (shape wav ! k)"
    by (rule mean_keepdims_nth)
next
  assume "shape wav ! k \<le> 1"
  then show "DownmixChannels_getitem ds key axis ''average'' idx g = Inr (item, g1)"
    by (rule downmix_single[OF up key ax])
next
  fix s k'
  assume h: "shapes ds key = Some s \<and> py_index (length s) axis = Some k'"
  from downmix_construct[OF h[THEN conjunct1] h[THEN conjunct2], of "''average''"]
  show "\<exists>w. DownmixChannels ds key axis ''average'' = Inr w
               \<and> shapes w key = Some (s[k' := Some 1]) \<and> k' < length s
               \<and> s[k' := Some 1] ! k' = Some 1
               \<and> getitem w = DownmixChannels_getitem ds key axis ''average''"
    by blast
next
  fix w
  assume "DownmixChannels ds key axis ''average'' = Inr w"
  from downmix_schema[OF this]
  show "\<exists>s k'. shapes ds key = Some s \<and> py_index (length s) axis = Some k' \<and> k' < length s
               \<and> shapes w key = Some (s[k' := Some 1]) \<and> s[k' := Some 1] ! k' = Some 1"
    by blast
next
  show "np_mean_keepdims \<lparr>dtype = d, shape = [2, 2], data = [2, 2, 4, 4]\<rparr> 0
            = \<lparr>dtype = float_result d, shape = [1, 2], data = [3, 3]\<rparr>"
    by (simp add: np_mean_keepdims_def weighted_sum_axis_def Let_def numeral_2_eq_2)
qed

theorem downmix_average_correct_witness:
  "(\<exists>w. DownmixChannels (the_dataset example_stereo) ''input'' 0 ''average'' = Inr w
        \<and> shapes (the_dataset example_stereo) ''input'' = Some [Some 2, Some 2]
        \<and> shapes w ''input'' = Some [Some 1, Some 2]
        \<and> result_field (getitem w 0 (\<lambda>i. 0)) ''input''
            = Some (Array \<lparr>dtype = np_float32, shape = [1, 2], data = [3, 3]\<rparr>))
   \<and> DownmixChannels_getitem
       (example_leaf (Array \<lparr>dtype = np_float32, shape = [1, 2], data = [5, 6]\<rparr>))
       ''input'' 0 ''average'' 0 (\<lambda>i. 0)
     = Inr ([''input'' \<mapsto> Array \<lparr>dtype = np_float32, shape = [1, 2], data = [5, 6]\<rparr>],
            (\<lambda>i. 0))"
proof -
  let ?g = "(\<lambda>i. 0) :: rng"
  let ?x = "\<lparr>dtype = np_float32, shape = [2, 2], data = [2, 2, 4, 4]\<rparr>"
  let ?y = "\<lparr>dtype = np_float32, shape = [1, 2], data = [5, 6]\<rparr>"
  let ?sd = "the_dataset example_stereo"
  let ?item = "[''itemid'' \<mapsto> Str ''a'', ''input'' \<mapsto> Array ?x]"
  have up: "getitem ?sd 0 ?g = Inr (?item, ?g)"
    by (simp add: the_dataset_def example_stereo_def BirdcallDataset_def common_shape_def
          BirdcallDataset_getitem_def label_columns_def)
  have sh: "shapes ?sd ''input'' = Some [Some 2, Some 2]"
    by (simp add: the_dataset_def example_stereo_def BirdcallDataset_def common_shape_def)
  have a: "getitem (example_leaf v) 0 ?g = Inr ([''input'' \<mapsto> v], ?g)" for v
    by (simp add: example_leaf_def)
  have kx: "?item ''input'' = Some (Array ?x)" by simp
  have ky: "[''input'' \<mapsto> Array ?y] ''input'' = Some (Array ?y)" by simp
  have px: "py_index (length (shape ?x)) 0 = Some 0" by (simp add: py_index_def)
  have py: "py_index (length (shape ?y)) 0 = Some 0" by (simp add: py_index_def)
  have ps: "py_index (length [Some 2, Some (2 :: nat)]) 0 = Some 0" by (simp add: py_index_def)
  have m: "np_mean_keepdims ?x 0 = \<lparr>dtype = np_float32, shape = [1, 2], data = [3, 3]\<rparr>"
    by (simp add: np_mean_keepdims_def weighted_sum_axis_def Let_def numeral_2_eq_2
          float_result_def)
  note T = downmix_average_correct[where item = ?item, OF up kx px]
  have "shape ?x ! 0 > 1 \<longrightarrow>
          DownmixChannels_getitem ?sd ''input'' 0 ''average'' 0 ?g
            = Inr (?item(''input'' \<mapsto> Array (np_mean_keepdims ?x 0)), ?g)"
    using T by simp
  then have r1: "DownmixChannels_getitem ?sd ''input'' 0 ''average'' 0 ?g
            = Inr (?item(''input'' \<mapsto> Array \<lparr>dtype = np_float32, shape = [1, 2], data = [3, 3]\<rparr>), ?g)"
    unfolding m by simp
  have "\<forall>s k'. shapes ?sd ''input'' = Some s \<and> py_index (length s) 0 = Some k' \<longrightarrow>
            (\<exists>w. DownmixChannels ?sd ''input'' 0 ''average'' = Inr w
               \<and> shapes w ''input'' = Some (s[k' := Some 1]) \<and> k' < length s
               \<and> s[k' := Some 1] ! k' = Some 1
               \<and> getitem w = DownmixChannels_getitem ?sd ''input'' 0 ''average'')"
    using T[THEN conjunct2, THEN conjunct2, THEN conjunct1] .
  then have "\<exists>w. DownmixChannels ?sd ''input'' 0 ''average'' = Inr w
               \<and> shapes w ''input'' = Some ([Some 2, Some 2][0 := Some 1])
               \<and> getitem w = DownmixChannels_getitem ?sd ''input'' 0 ''average''"
    using sh ps by blast
  then obtain w where w: "DownmixChannels ?sd ''input'' 0 ''average'' = Inr w"
    "shapes w ''input'' = Some [Some 1, Some 2]"
    "getitem w = DownmixChannels_getitem ?sd ''input'' 0 ''average''"
    by auto
  have rf: "result_field (getitem w 0 ?g) ''input''
            = Some (Array \<lparr>dtype = np_float32, shape = [1, 2], data = [3, 3]\<rparr>)"
    unfolding w(3) r1 by (simp add: result_field_def)
  have "shape ?y ! 0 \<le> 1 \<longrightarrow>
          DownmixChannels_getitem (example_leaf (Array ?y)) ''input'' 0 ''average'' 0 ?g
            = Inr ([''input'' \<mapsto> Array ?y], ?g)"
    using downmix_average_correct[where item = "[''input'' \<mapsto> Array ?y]", OF a ky py] by blast
  then have r2: "DownmixChannels_getitem (example_leaf (Array ?y)) ''input'' 0 ''average'' 0 ?g
            = Inr ([''input'' \<mapsto> Array ?y], ?g)"
    by simp
  show ?thesis using w(1,2) sh rf r2 by blast
qed

subsection \<open>Mixup\<close>

lemma astype_elem_01 [simp]: "astype_elem d 0 = 0" "astype_elem d 1 = 1"
  by (simp_all add: astype_elem_def)

lemma positive_indicator_simps [simp]:
  "dtype (positive_indicator a) = dtype a"
  "shape (positive_indicator a) = shape a"
  "length (data (positive_indicator a)) = length (data a)"
  by (simp_all add: positive_indicator_def)

lemma positive_indicator_nth:
  "i < length (data a) \<Longrightarrow> data (positive_indicator a) ! i = (if data a ! i > 0 then 1 else 0)"
  by (simp add: positive_indicator_def)

lemma positive_indicator_idem [simp]:
  "positive_indicator (positive_indicator a) = positive_indicator a"
  by (simp add: positive_indicator_def comp_def)

lemma binarize_result:
  assumes "binarize ks item = Inr item'"
  shows "(\<forall>k. k \<notin> set ks \<longrightarrow> item' k = item k)
       \<and> (\<forall>k\<in>set ks. \<exists>a. item k = Some (Array a) \<and> item' k = Some (Array (positive_indicator a)))"
  using assms
proof (induction ks arbitrary: item)
  case Nil
  then show ?case by simp
next
  case (Cons k0 ks)
  from Cons.prems obtain a where a: "item k0 = Some (Array a)"
    and r: "binarize ks (item(k0 \<mapsto> Array (positive_indicator a))) = Inr item'"
    by (auto split: option.splits pyval.splits)
  let ?it = "item(k0 \<mapsto> Array (positive_indicator a))"
  from Cons.IH[OF r] have
    f: "\<And>k. k \<notin> set ks \<Longrightarrow> item' k = ?it k"
    and v: "\<And>k. k \<in> set ks \<Longrightarrow> \<exists>b. ?it k = Some (Array b) \<and> item' k = Some (Array (positive_indicator b))"
    by blast+
  have "item' k = item k" if "k \<notin> set (k0 # ks)" for k
    using f[of k] that by simp
  moreover have "\<exists>b. item k = Some (Array b) \<and> item' k = Some (Array (positive_indicator b))"
    if "k \<in> set (k0 # ks)" for k
  proof (cases "k \<in> set ks")
    case True
    from v[OF True] obtain b where b: "?it k = Some (Array b)"
      "item' k = Some (Array (positive_indicator b))" by blast
    show ?thesis
    proof (cases "k = k0")
      case True
      then have "b = positive_indicator a" using b(1) by simp
      then show ?thesis using a b(2) True by simp
    next
      case False
      then show ?thesis using b by simp
    qed
  next
    case False
    then have "k = k0" using that by simp
    then show ?thesis using f[of k] False a by simp
  qed
  ultimately show ?case by blast
qed

lemma blend_keys_frame:
  "blend_keys ks w1 w2 i1 i2 item = Inr item' \<Longrightarrow> k \<notin> set ks \<Longrightarrow> item' k = item k"
proof (induction ks arbitrary: item)
  case Nil
  then show ?case by simp
next
  case (Cons k0 ks)
  from Cons.prems(1) obtain v where "blend_keys ks w1 w2 i1 i2 (item(k0 \<mapsto> v)) = Inr item'"
    by (auto split: option.splits sum.splits)
  from Cons.IH[OF this] Cons.prems(2) show ?case by simp
qed

lemma scale_dtype_floating: "scale_dtype c a = np_float32 \<or> scale_dtype c a = np_float64"
  by (simp add: scale_dtype_def)

lemma add_dtype_floating:
  assumes "dtype a = np_float32 \<or> dtype a = np_float64"
    and "dtype b = np_float32 \<or> dtype b = np_float64"
  shows "add_dtype a b = np_float32 \<or> add_dtype a b = np_float64"
  using assms by (auto simp: add_dtype_def promote_types_def Let_def)

lemma weighted_sum_array:
  assumes "py_scale w1 (Array a1) = Inr l" "py_scale w2 (Array a2) = Inr r"
    and "py_add l r = Inr v"
  shows "\<exists>a. v = Array a \<and> (dtype a = np_float32 \<or> dtype a = np_float64)
           \<and> (shape a1 = shape a2 \<longrightarrow>
                shape a = shape a1
                \<and> data a = map2 (\<lambda>x y. w1 * x + w2 * y) (data a1) (data a2)
                \<and> dtype a = promote_types (scale_dtype w1 a1) (scale_dtype w2 a2))"
proof -
  let ?l = "a1\<lparr>dtype := scale_dtype w1 a1, data := map (\<lambda>x. w1 * x) (data a1)\<rparr>"
  let ?r = "a2\<lparr>dtype := scale_dtype w2 a2, data := map (\<lambda>x. w2 * x) (data a2)\<rparr>"
  have l: "l = Array ?l" and r: "r = Array ?r"
    using assms(1,2) by (auto simp: py_scale_def)
  from assms(3) obtain a where a: "np_add ?l ?r = Inr a" "v = Array a"
    unfolding l r by (auto simp: py_add_def split: sum.splits)
  have fl: "add_dtype ?l ?r = np_float32 \<or> add_dtype ?l ?r = np_float64"
    by (rule add_dtype_floating) (use scale_dtype_floating in simp_all)
  have d: "dtype a = add_dtype ?l ?r"
    using a(1) by (auto simp: np_add_def split: if_splits option.splits)
  have s: "shape a = shape a1 \<and> data a = map2 (\<lambda>x y. w1 * x + w2 * y) (data a1) (data a2)
           \<and> dtype a = promote_types (scale_dtype w1 a1) (scale_dtype w2 a2)"
    if "shape a1 = shape a2"
    using a(1) that by (auto simp: np_add_def mix_data add_dtype_same_shape)
  show ?thesis using a(2) d fl s by auto
qed

lemma blend_keys_value:
  "blend_keys ks w1 w2 i1 i2 item = Inr item' \<Longrightarrow> k \<in> set ks \<Longrightarrow>
     \<exists>a1 a2 l r v. i1 k = Some (Array a1) \<and> i2 k = Some (Array a2)
        \<and> py_scale w1 (Array a1) = Inr l \<and> py_scale w2 (Array a2) = Inr r
        \<and> py_add l r = Inr v \<and> item' k = Some v"
proof (induction ks arbitrary: item)
  case Nil
  then show ?case by simp
next
  case (Cons k0 ks)
  from Cons.prems(1) obtain v1 v2 l r v where
    h: "i1 k0 = Some v1" "i2 k0 = Some v2" "py_scale w1 v1 = Inr l" "py_scale w2 v2 = Inr r"
       "py_add l r = Inr v"
    and rest: "blend_keys ks w1 w2 i1 i2 (item(k0 \<mapsto> v)) = Inr item'"
    by (auto split: option.splits sum.splits)
  from h(3) obtain a1 where a1: "v1 = Array a1" by (cases v1) (simp_all add: py_scale_def)
  from h(4) obtain a2 where a2: "v2 = Array a2" by (cases v2) (simp_all add: py_scale_def)
  show ?case
  proof (cases "k \<in> set ks")
    case True
    from Cons.IH[OF rest True] show ?thesis .
  next
    case False
    then have k: "k = k0" using Cons.prems(2) by simp
    from blend_keys_frame[OF rest False] have "item' k = Some v" using k by simp
    then show ?thesis using h a1 a2 k by blast
  qed
qed

lemma promote_same [simp]: "promote_types d d = d"
  by (simp add: promote_types_def)

lemma Mixup_getitem_steps:
  assumes "getitem ds idx g = Inr (item1, g1)"
    and "random_randint (num_items ds) g1 = Inr (j, g2)"
    and "getitem ds j g2 = Inr (item2, g3)"
  shows "Mixup_getitem ds keys bkeys alpha idx g =
           (case blend_keys keys (g3 0) (1 - g3 0) item1 item2
                   (if g3 0 \<ge> 1 - g3 0 then item1 else item2) of
              Inl e \<Rightarrow> Inl e
            | Inr blended \<Rightarrow>
                (case binarize bkeys blended of
                   Inl e \<Rightarrow> Inl e
                 | Inr item' \<Rightarrow> Inr (item', advance g3)))"
  using assms by (simp add: Mixup_getitem_def random_beta_def Let_def)

text \<open>
  Claim C9, as stated, fails in one point: the cast is not to the field's original
  element type. The background labels are declared and stored as \<^verbatim>\<open>uint8\<close>; blended and
  then binarized they come back as \<^verbatim>\<open>float64\<close>.
\<close>

theorem mixup_binarize_counterexample:
  "dtypes (Mixup (the_dataset example_birdcalls) [''label_bg''] [''label_bg''] (3 / 10)) ''label_bg''
     = Some np_uint8
   \<and> result_field (getitem (the_dataset example_birdcalls) 0 (\<lambda>i. 1 / 2)) ''label_bg''
     = Some (Array \<lparr>dtype = np_uint8, shape = [2], data = [1, 0]\<rparr>)
   \<and> result_field
       (getitem (Mixup (the_dataset example_birdcalls) [''label_bg''] [''label_bg''] (3 / 10))
          0 (\<lambda>i. 1 / 2)) ''label_bg''
     = Some (Array \<lparr>dtype = np_float64, shape = [2], data = [1, 1]\<rparr>)"
  by code_simp

text \<open>
  Claim C9, amended. Every field of the binarize key set is the indicator of strict
  positivity of the value the item holds when the loop runs: each element is exactly 1
  where that value is positive and exactly 0 elsewhere, with the shape and the element
  type of that value. For a field outside the blend key set this value is the field of the
  base item, so that the field keeps its type. For a field of the blend key set it is the
  weighted sum of the two items' fields, whose type is floating: it is \<^verbatim>\<open>float64\<close> when
  the fields have one shape and the first is not a \<^verbatim>\<open>float32\<close> array or has no axes, and
  \<^verbatim>\<open>float32\<close> when both are \<^verbatim>\<open>float32\<close> arrays of one shape with at least one axis and the
  weight is in \<open>[0, 1]\<close>.
\<close>

theorem mixup_binarize_correct:
  assumes i1: "getitem ds idx g = Inr (item1, g1)"
    and j: "random_randint (num_items ds) g1 = Inr (j, g2)"
    and i2: "getitem ds j g2 = Inr (item2, g3)"
    and bl: "blend_keys keys (g3 0) (1 - g3 0) item1 item2
               (if g3 0 \<ge> 1 - g3 0 then item1 else item2) = Inr blended"
    and r: "getitem (Mixup ds keys bkeys alpha) idx g = Inr (item', g')"
  shows "\<forall>k\<in>set bkeys. \<exists>a.
           blended k = Some (Array a)
           \<and> item' k = Some (Array (positive_indicator a))
           \<and> dtype (positive_indicator a) = dtype a
           \<and> shape (positive_indicator a) = shape a
           \<and> length (data (positive_indicator a)) = length (data a)
           \<and> (\<forall>i<length (data a).
                 data (positive_indicator a) ! i = (if data a ! i > 0 then 1 else 0))
           \<and> (k \<notin> set keys \<longrightarrow> blended k = (if g3 0 \<ge> 1 - g3 0 then item1 else item2) k)
           \<and> (k \<in> set keys \<longrightarrow>
                (\<exists>a1 a2 l r. item1 k = Some (Array a1) \<and> item2 k = Some (Array a2)
                   \<and> py_scale (g3 0) (Array a1) = Inr l
                   \<and> py_scale (1 - g3 0) (Array a2) = Inr r
                   \<and> py_add l r = Inr (Array a)
                   \<and> (dtype a = np_float32 \<or> dtype a = np_float64)
                   \<and> (shape a1 = shape a2 \<and> (shape a1 = [] \<or> dtype a1 \<noteq> np_float32)
                        \<longrightarrow> dtype a = np_float64)
                   \<and> (shape a1 = shape a2 \<and> shape a1 \<noteq> []
                        \<and> dtype a1 = np_float32 \<and> dtype a2 = np_float32
                        \<and> 0 \<le> g3 0 \<and> g3 0 \<le> 1
                        \<longrightarrow> dtype a = np_float32)))"
proof
  fix k
  assume k: "k \<in> set bkeys"
  from r have "Mixup_getitem ds keys bkeys alpha idx g = Inr (item', g')"
    by (simp add: Mixup_def)
  then have b: "binarize bkeys blended = Inr item'"
    unfolding Mixup_getitem_steps[OF i1 j i2] bl by (simp split: sum.splits)
  from binarize_result[OF b] k obtain a where
    a: "blended k = Some (Array a)" "item' k = Some (Array (positive_indicator a))"
    by blast
  have fr: "k \<notin> set keys \<longrightarrow> blended k = (if g3 0 \<ge> 1 - g3 0 then item1 else item2) k"
    using blend_keys_frame[OF bl] by blast
  have bv: "k \<in> set keys \<longrightarrow>
                (\<exists>a1 a2 l r. item1 k = Some (Array a1) \<and> item2 k = Some (Array a2)
                   \<and> py_scale (g3 0) (Array a1) = Inr l
                   \<and> py_scale (1 - g3 0) (Array a2) = Inr r
                   \<and> py_add l r = Inr (Array a)
                   \<and> (dtype a = np_float32 \<or> dtype a = np_float64)
                   \<and> (shape a1 = shape a2 \<and> (shape a1 = [] \<or> dtype a1 \<noteq> np_float32)
                        \<longrightarrow> dtype a = np_float64)
                   \<and> (shape a1 = shape a2 \<and> shape a1 \<noteq> []
                        \<and> dtype a1 = np_float32 \<and> dtype a2 = np_float32
                        \<and> 0 \<le> g3 0 \<and> g3 0 \<le> 1
                        \<longrightarrow> dtype a = np_float32))"
  proof
    assume "k \<in> set keys"
    from blend_keys_value[OF bl this] obtain a1 a2 l r v where
      c: "item1 k = Some (Array a1)" "item2 k = Some (Array a2)"
         "py_scale (g3 0) (Array a1) = Inr l" "py_scale (1 - g3 0) (Array a2) = Inr r"
         "py_add l r = Inr v" "blended k = Some v"
      by blast
    then have v: "v = Array a" using a(1) by simp
    from weighted_sum_array[OF c(3,4,5)] v have
      fl: "dtype a = np_float32 \<or> dtype a = np_float64"
      and sm: "shape a1 = shape a2 \<longrightarrow>
                 dtype a = promote_types (scale_dtype (g3 0) a1) (scale_dtype (1 - g3 0) a2)"
      by auto
    have d64: "shape a1 = shape a2 \<and> (shape a1 = [] \<or> dtype a1 \<noteq> np_float32)
                 \<longrightarrow> dtype a = np_float64"
    proof
      assume h: "shape a1 = shape a2 \<and> (shape a1 = [] \<or> dtype a1 \<noteq> np_float32)"
      then have "shape a1 = [] \<or> dtype a1 \<noteq> np_float32" by (rule conjunct2)
      then have "scale_dtype (g3 0) a1 = np_float64" by (rule scale_dtype_float64)
      then show "dtype a = np_float64"
        using sm h scale_dtype_floating[of "1 - g3 0" a2] by (auto simp: promote_types_def)
    qed
    have d32: "shape a1 = shape a2 \<and> shape a1 \<noteq> []
                 \<and> dtype a1 = np_float32 \<and> dtype a2 = np_float32
                 \<and> 0 \<le> g3 0 \<and> g3 0 \<le> 1
                 \<longrightarrow> dtype a = np_float32"
    proof
      assume h: "shape a1 = shape a2 \<and> shape a1 \<noteq> []
                 \<and> dtype a1 = np_float32 \<and> dtype a2 = np_float32
                 \<and> 0 \<le> g3 0 \<and> g3 0 \<le> 1"
      have "scale_dtype (g3 0) a1 = np_float32" by (rule scale_dtype_float32) (use h in auto)
      moreover have "scale_dtype (1 - g3 0) a2 = np_float32"
        by (rule scale_dtype_float32) (use h in auto)
      ultimately show "dtype a = np_float32" using sm h by simp
    qed
    show "\<exists>a1 a2 l r. item1 k = Some (Array a1) \<and> item2 k = Some (Array a2)
                   \<and> py_scale (g3 0) (Array a1) = Inr l
                   \<and> py_scale (1 - g3 0) (Array a2) = Inr r
                   \<and> py_add l r = Inr (Array a)
                   \<and> (dtype a = np_float32 \<or> dtype a = np_float64)
                   \<and> (shape a1 = shape a2 \<and> (shape a1 = [] \<or> dtype a1 \<noteq> np_float32)
                        \<longrightarrow> dtype a = np_float64)
                   \<and> (shape a1 = shape a2 \<and> shape a1 \<noteq> []
                        \<and> dtype a1 = np_float32 \<and> dtype a2 = np_float32
                        \<and> 0 \<le> g3 0 \<and> g3 0 \<le> 1
                        \<longrightarrow> dtype a = np_float32)"
      using c(1,2,3,4) c(5)[unfolded v] fl d64 d32 by blast
  qed
  have pi: "\<forall>i<length (data a). data (positive_indicator a) ! i = (if data a ! i > 0 then 1 else 0)"
    by (simp add: positive_indicator_nth)
  show "\<exists>a. blended k = Some (Array a)
           \<and> item' k = Some (Array (positive_indicator a))
           \<and> dtype (positive_indicator a) = dtype a
           \<and> shape (positive_indicator a) = shape a
           \<and> length (data (positive_indicator a)) = length (data a)
           \<and> (\<forall>i<length (data a).
                 data (positive_indicator a) ! i = (if data a ! i > 0 then 1 else 0))
           \<and> (k \<notin> set keys \<longrightarrow> blended k = (if g3 0 \<ge> 1 - g3 0 then item1 else item2) k)
           \<and> (k \<in> set keys \<longrightarrow>
                (\<exists>a1 a2 l r. item1 k = Some (Array a1) \<and> item2 k = Some (Array a2)
                   \<and> py_scale (g3 0) (Array a1) = Inr l
                   \<and> py_scale (1 - g3 0) (Array a2) = Inr r
                   \<and> py_add l r = Inr (Array a)
                   \<and> (dtype a = np_float32 \<or> dtype a = np_float64)
                   \<and> (shape a1 = shape a2 \<and> (shape a1 = [] \<or> dtype a1 \<noteq> np_float32)
                        \<longrightarrow> dtype a = np_float64)
                   \<and> (shape a1 = shape a2 \<and> shape a1 \<noteq> []
                        \<and> dtype a1 = np_float32 \<and> dtype a2 = np_float32
                        \<and> 0 \<le> g3 0 \<and> g3 0 \<le> 1
                        \<longrightarrow> dtype a = np_float32)))"
    apply (rule exI[of _ a])
    using a fr bv pi by simp
qed

theorem mixup_binarize_correct_witness:
  "\<exists>a a1. result_field
            (getitem (Mixup (the_dataset example_birdcalls) [''label_bg''] [''label_bg''] (3 / 10))
               0 (\<lambda>i. 1 / 2)) ''label_bg''
          = Some (Array (positive_indicator a))
        \<and> positive_indicator a = \<lparr>dtype = np_float64, shape = [2], data = [1, 1]\<rparr>
        \<and> a = \<lparr>dtype = np_float64, shape = [2], data = [1 / 2, 1 / 2]\<rparr>
        \<and> result_field (getitem (the_dataset example_birdcalls) 0 (\<lambda>i. 1 / 2)) ''label_bg''
          = Some (Array a1)
        \<and> dtype a1 = np_uint8"
proof -
  let ?g = "(\<lambda>i. 1 / 2) :: rng"
  let ?bd = "the_dataset example_birdcalls"
  let ?la = "\<lparr>dtype = np_uint8, shape = [2], data = [1, 0]\<rparr>"
  let ?lb = "\<lparr>dtype = np_uint8, shape = [2], data = [0, 1]\<rparr>"
  let ?ia = "[''itemid'' \<mapsto> Str ''a'',
              ''input'' \<mapsto> Array \<lparr>dtype = np_float32, shape = [3], data = [1, 2, 3]\<rparr>,
              ''label_bg'' \<mapsto> Array ?la,
              ''label_all'' \<mapsto> Array \<lparr>dtype = np_float32, shape = [2], data = [1 / 2, 0]\<rparr>]"
  let ?ib = "[''itemid'' \<mapsto> Str ''b'',
              ''input'' \<mapsto> Array \<lparr>dtype = np_float32, shape = [3], data = [4, 5, 6]\<rparr>,
              ''label_bg'' \<mapsto> Array ?lb,
              ''label_all'' \<mapsto> Array \<lparr>dtype = np_float32, shape = [2], data = [0, 1 / 2]\<rparr>]"
  let ?mid = "\<lparr>dtype = np_float64, shape = [2], data = [1 / 2, 1 / 2]\<rparr>"
  let ?out = "\<lparr>dtype = np_float64, shape = [2], data = [1, 1]\<rparr>"
  have adv: "advance ?g = ?g" by (simp add: advance_def)
  have i1: "getitem ?bd 0 ?g = Inr (?ia, ?g)"
    by (simp add: the_dataset_def example_birdcalls_def BirdcallDataset_def common_shape_def
          BirdcallDataset_getitem_def label_columns_def)
  have n: "num_items ?bd = 2"
    by (simp add: the_dataset_def example_birdcalls_def BirdcallDataset_def common_shape_def)
  have j: "random_randint (num_items ?bd) ?g = Inr (1, ?g)"
    unfolding n by (simp add: random_randint_def adv)
  have i2: "getitem ?bd 1 ?g = Inr (?ib, ?g)"
    by (simp add: the_dataset_def example_birdcalls_def BirdcallDataset_def common_shape_def
          BirdcallDataset_getitem_def label_columns_def)
  have sa: "py_scale (1 / 2) (Array ?la) = Inr (Array \<lparr>dtype = np_float64, shape = [2], data = [1 / 2, 0]\<rparr>)"
    by (simp add: py_scale_def scale_dtype_def)
  have sb: "py_scale (1 / 2) (Array ?lb) = Inr (Array \<lparr>dtype = np_float64, shape = [2], data = [0, 1 / 2]\<rparr>)"
    by (simp add: py_scale_def scale_dtype_def)
  have ad: "py_add (Array \<lparr>dtype = np_float64, shape = [2], data = [1 / 2, 0]\<rparr>)
                   (Array \<lparr>dtype = np_float64, shape = [2], data = [0, 1 / 2]\<rparr>) = Inr (Array ?mid)"
    by (simp add: py_add_def np_add_def add_dtype_def)
  have bl: "blend_keys [''label_bg''] (?g 0) (1 - ?g 0) ?ia ?ib
              (if ?g 0 \<ge> 1 - ?g 0 then ?ia else ?ib) = Inr (?ia(''label_bg'' \<mapsto> Array ?mid))"
    by (simp add: sa sb ad)
  have ind: "positive_indicator ?mid = ?out"
    by (simp add: positive_indicator_def astype_elem_def)
  have r: "getitem (Mixup ?bd [''label_bg''] [''label_bg''] (3 / 10)) 0 ?g
             = Inr (?ia(''label_bg'' \<mapsto> Array ?out), ?g)"
    unfolding Mixup_def dataset.select_convs Mixup_getitem_steps[OF i1 j i2] bl
    by (simp add: ind adv)
  note T = mixup_binarize_correct[OF i1 j i2 bl r]
  have "''label_bg'' \<in> set [''label_bg'']" by simp
  with T obtain a where
    a: "(?ia(''label_bg'' \<mapsto> Array ?mid)) ''label_bg'' = Some (Array a)"
       "(?ia(''label_bg'' \<mapsto> Array ?out)) ''label_bg'' = Some (Array (positive_indicator a))"
    by blast
  from a(1) have am: "a = ?mid" by simp
  have rf: "result_field (getitem (Mixup ?bd [''label_bg''] [''label_bg''] (3 / 10)) 0 ?g) ''label_bg''
              = Some (Array (positive_indicator a))"
    unfolding r using a(2) by (simp add: result_field_def)
  have r1: "result_field (getitem ?bd 0 ?g) ''label_bg'' = Some (Array ?la)"
    unfolding i1 by (simp add: result_field_def)
  show ?thesis using rf am ind r1 by auto
qed

text \<open>
  Claim C10, as stated, fails. First run: the drawn second index is the requested index 0,
  the combined labels \<^verbatim>\<open>[0.5, 0]\<close> are in both key sets and come back as \<^verbatim>\<open>[1, 0]\<close>. Second
  run: over randomly cropped excerpts the drawn index is again 0, but the two reads of
  item 0 crop at different positions, and the blended input is \<^verbatim>\<open>[1.5, 2.5]\<close>, not the
  \<^verbatim>\<open>[1, 2]\<close> of the first read.
\<close>

theorem mixup_same_index_counterexample:
  "result_field (getitem (the_dataset example_birdcalls) 0 (\<lambda>i. if i = 0 then 0 else 1 / 4))
       ''label_all''
     = Some (Array \<lparr>dtype = np_float32, shape = [2], data = [1 / 2, 0]\<rparr>)
   \<and> map_sum id fst (random_randint (num_items (the_dataset example_birdcalls))
                        (\<lambda>i. if i = 0 then 0 else 1 / 4)) = Inr 0
   \<and> result_field
       (getitem (Mixup (the_dataset example_birdcalls) [''label_all''] [''label_all''] (3 / 10))
          0 (\<lambda>i. if i = 0 then 0 else 1 / 4)) ''label_all''
     = Some (Array \<lparr>dtype = np_float32, shape = [2], data = [1, 0]\<rparr>)
   \<and> result_field
       (getitem (the_dataset (FixedSizeExcerpts (the_dataset example_birdcalls) 2 False ''input''))
          0 (\<lambda>i. if i < 2 then 0 else 1 / 2)) ''input''
     = Some (Array \<lparr>dtype = np_float32, shape = [2], data = [1, 2]\<rparr>)
   \<and> map_sum id fst
       (random_randint
          (num_items (the_dataset (FixedSizeExcerpts (the_dataset example_birdcalls) 2 False ''input'')))
          (\<lambda>i. if Suc i < 2 then 0 else 1 / 2)) = Inr 0
   \<and> result_field
       (getitem
          (Mixup (the_dataset (FixedSizeExcerpts (the_dataset example_birdcalls) 2 False ''input''))
             [''input''] [] (3 / 10))
          0 (\<lambda>i. if i < 2 then 0 else 1 / 2)) ''input''
     = Some (Array \<lparr>dtype = np_float32, shape = [2], data = [3 / 2, 5 / 2]\<rparr>)"
  by code_simp

text \<open>
  Claim C10, amended. When the drawn second index is the requested index and both reads
  of the upstream return the same item, every field of the blend key set that is not in
  the binarize key set is the weighted sum \<open>w1 * x + (1 - w1) * x\<close> of the original field
  with itself, element by element, with the shape of the field and a floating element
  type: \<^verbatim>\<open>float64\<close> unless the field is a \<^verbatim>\<open>float32\<close> array with at least one axis. A field
  that is also in the binarize key set is the indicator of that sum. (That the sum is \<open>x\<close>
  again is a fact of exact arithmetic and is not stated: the source computes two rounded
  products and a rounded sum.)
\<close>

theorem mixup_same_item_blend:
  assumes i1: "getitem ds idx g = Inr (item1, g1)"
    and j: "random_randint (num_items ds) g1 = Inr (idx, g2)"
    and i2: "getitem ds idx g2 = Inr (item1, g3)"
    and r: "getitem (Mixup ds keys bkeys alpha) idx g = Inr (item', g')"
  shows "\<forall>k\<in>set keys. \<exists>a c.
           item1 k = Some (Array a)
           \<and> shape c = shape a
           \<and> data c = map (\<lambda>x. g3 0 * x + (1 - g3 0) * x) (data a)
           \<and> dtype c = promote_types (scale_dtype (g3 0) a) (scale_dtype (1 - g3 0) a)
           \<and> (shape a = [] \<or> dtype a \<noteq> np_float32 \<longrightarrow> dtype c = np_float64)
           \<and> (shape a \<noteq> [] \<and> dtype a = np_float32 \<and> 0 \<le> g3 0 \<and> g3 0 \<le> 1
                \<longrightarrow> dtype c = np_float32)
           \<and> (k \<notin> set bkeys \<longrightarrow> item' k = Some (Array c))
           \<and> (k \<in> set bkeys \<longrightarrow> item' k = Some (Array (positive_indicator c)))"
proof
  fix k
  assume k: "k \<in> set keys"
  from r have m: "Mixup_getitem ds keys bkeys alpha idx g = Inr (item', g')"
    by (simp add: Mixup_def)
  then obtain blended where
    bl: "blend_keys keys (g3 0) (1 - g3 0) item1 item1 item1 = Inr blended"
    and b: "binarize bkeys blended = Inr item'"
    unfolding Mixup_getitem_steps[OF i1 j i2] by (auto split: sum.splits)
  from blend_keys_value[OF bl k] obtain a1 a2 l r v where
    c: "item1 k = Some (Array a1)" "item1 k = Some (Array a2)"
       "py_scale (g3 0) (Array a1) = Inr l" "py_scale (1 - g3 0) (Array a2) = Inr r"
       "py_add l r = Inr v" "blended k = Some v"
    by blast
  then have e: "a2 = a1" by simp
  from weighted_sum_array[OF c(3,4,5)] e obtain c' where
    c': "v = Array c'" "shape c' = shape a1"
        "data c' = map2 (\<lambda>x y. g3 0 * x + (1 - g3 0) * y) (data a1) (data a1)"
        "dtype c' = promote_types (scale_dtype (g3 0) a1) (scale_dtype (1 - g3 0) a1)"
    by auto
  have dat: "data c' = map (\<lambda>x. g3 0 * x + (1 - g3 0) * x) (data a1)"
    unfolding c'(3) by (simp add: zip_same_conv_map)
  have d64: "shape a1 = [] \<or> dtype a1 \<noteq> np_float32 \<longrightarrow> dtype c' = np_float64"
  proof
    assume h: "shape a1 = [] \<or> dtype a1 \<noteq> np_float32"
    have "scale_dtype w a1 = np_float64" for w by (rule scale_dtype_float64[OF h])
    then show "dtype c' = np_float64" using c'(4) by simp
  qed
  have d32: "shape a1 \<noteq> [] \<and> dtype a1 = np_float32 \<and> 0 \<le> g3 0 \<and> g3 0 \<le> 1
               \<longrightarrow> dtype c' = np_float32"
  proof
    assume h: "shape a1 \<noteq> [] \<and> dtype a1 = np_float32 \<and> 0 \<le> g3 0 \<and> g3 0 \<le> 1"
    have "scale_dtype (g3 0) a1 = np_float32" by (rule scale_dtype_float32) (use h in auto)
    moreover have "scale_dtype (1 - g3 0) a1 = np_float32"
      by (rule scale_dtype_float32) (use h in auto)
    ultimately show "dtype c' = np_float32" using c'(4) by simp
  qed
  have n: "k \<notin> set bkeys \<longrightarrow> item' k = Some (Array c')"
    using binarize_result[OF b] c(6) c'(1) by simp
  have y: "k \<in> set bkeys \<longrightarrow> item' k = Some (Array (positive_indicator c'))"
  proof
    assume "k \<in> set bkeys"
    with binarize_result[OF b] obtain a where
      "blended k = Some (Array a)" "item' k = Some (Array (positive_indicator a))"
      by blast
    then show "item' k = Some (Array (positive_indicator c'))"
      using c(6) c'(1) by simp
  qed
  show "\<exists>a c. item1 k = Some (Array a)
           \<and> shape c = shape a
           \<and> data c = map (\<lambda>x. g3 0 * x + (1 - g3 0) * x) (data a)
           \<and> dtype c = promote_types (scale_dtype (g3 0) a) (scale_dtype (1 - g3 0) a)
           \<and> (shape a = [] \<or> dtype a \<noteq> np_float32 \<longrightarrow> dtype c = np_float64)
           \<and> (shape a \<noteq> [] \<and> dtype a = np_float32 \<and> 0 \<le> g3 0 \<and> g3 0 \<le> 1
                \<longrightarrow> dtype c = np_float32)
           \<and> (k \<notin> set bkeys \<longrightarrow> item' k = Some (Array c))
           \<and> (k \<in> set bkeys \<longrightarrow> item' k = Some (Array (positive_indicator c)))"
    apply (rule exI[of _ a1])
    apply (rule exI[of _ c'])
    using c(1) c'(2,4) dat d64 d32 n y by simp
qed

theorem mixup_same_item_blend_witness:
  "result_field
     (getitem (Mixup (the_dataset example_birdcalls) [''label_bg''] [] (3 / 10))
        0 (\<lambda>i. if i = 0 then 0 else 1 / 4)) ''label_bg''
     = Some (Array \<lparr>dtype = np_float64, shape = [2], data = [1, 0]\<rparr>)
   \<and> result_field (getitem (the_dataset example_birdcalls) 0 (\<lambda>i. if i = 0 then 0 else 1 / 4))
        ''label_bg''
     = Some (Array \<lparr>dtype = np_uint8, shape = [2], data = [1, 0]\<rparr>)"
proof -
  let ?g = "(\<lambda>i. if i = 0 then 0 else 1 / 4) :: rng"
  let ?h = "(\<lambda>i. 1 / 4) :: rng"
  let ?bd = "the_dataset example_birdcalls"
  let ?la = "\<lparr>dtype = np_uint8, shape = [2], data = [1, 0]\<rparr>"
  let ?ia = "[''itemid'' \<mapsto> Str ''a'',
              ''input'' \<mapsto> Array \<lparr>dtype = np_float32, shape = [3], data = [1, 2, 3]\<rparr>,
              ''label_bg'' \<mapsto> Array ?la,
              ''label_all'' \<mapsto> Array \<lparr>dtype = np_float32, shape = [2], data = [1 / 2, 0]\<rparr>]"
  let ?out = "\<lparr>dtype = np_float64, shape = [2], data = [1, 0]\<rparr>"
  have adv: "advance ?g = ?h" "advance ?h = ?h" by (simp_all add: advance_def)
  have i1: "getitem ?bd 0 t = Inr (?ia, t)" for t
    by (simp add: the_dataset_def example_birdcalls_def BirdcallDataset_def common_shape_def
          BirdcallDataset_getitem_def label_columns_def)
  have n: "num_items ?bd = 2"
    by (simp add: the_dataset_def example_birdcalls_def BirdcallDataset_def common_shape_def)
  have j: "random_randint (num_items ?bd) ?g = Inr (0, ?h)"
    unfolding n by (simp add: random_randint_def adv)
  have sa: "py_scale (1 / 4) (Array ?la) = Inr (Array \<lparr>dtype = np_float64, shape = [2], data = [1 / 4, 0]\<rparr>)"
    by (simp add: py_scale_def scale_dtype_def)
  have sb: "py_scale (3 / 4) (Array ?la) = Inr (Array \<lparr>dtype = np_float64, shape = [2], data = [3 / 4, 0]\<rparr>)"
    by (simp add: py_scale_def scale_dtype_def)
  have ad: "py_add (Array \<lparr>dtype = np_float64, shape = [2], data = [1 / 4, 0]\<rparr>)
                   (Array \<lparr>dtype = np_float64, shape = [2], data = [3 / 4, 0]\<rparr>) = Inr (Array ?out)"
    by (simp add: py_add_def np_add_def add_dtype_def)
  have bl: "blend_keys [''label_bg''] (?h 0) (1 - ?h 0) ?ia ?ia
              (if ?h 0 \<ge> 1 - ?h 0 then ?ia else ?ia) = Inr (?ia(''label_bg'' \<mapsto> Array ?out))"
    by (simp add: sa sb ad)
  have r: "getitem (Mixup ?bd [''label_bg''] [] (3 / 10)) 0 ?g
             = Inr (?ia(''label_bg'' \<mapsto> Array ?out), ?h)"
    unfolding Mixup_def dataset.select_convs Mixup_getitem_steps[OF i1 j i1] bl
    by (simp add: adv)
  note T = mixup_same_item_blend[OF i1 j i1 r]
  have "''label_bg'' \<in> set [''label_bg'']" by simp
  with T obtain a c where
    ac: "?ia ''label_bg'' = Some (Array a)" "shape c = shape a"
        "data c = map (\<lambda>x. ?h 0 * x + (1 - ?h 0) * x) (data a)"
        "shape a = [] \<or> dtype a \<noteq> np_float32 \<longrightarrow> dtype c = np_float64"
        "''label_bg'' \<notin> set [] \<longrightarrow> (?ia(''label_bg'' \<mapsto> Array ?out)) ''label_bg'' = Some (Array c)"
    by blast
  from ac(1) have a: "a = ?la" by simp
  have "dtype c = np_float64" using ac(4) a by simp
  moreover have "shape c = [2]" using ac(2) a by simp
  moreover have "data c = [1, 0]" using ac(3) a by simp
  ultimately have c: "c = ?out" by simp
  have "result_field (getitem (Mixup ?bd [''label_bg''] [] (3 / 10)) 0 ?g) ''label_bg''
          = Some (Array c)"
    unfolding r using ac(5) by (simp add: result_field_def)
  then show ?thesis unfolding c using i1[of ?g] by (simp add: result_field_def)
qed

subsection \<open>The wrapping invariant\<close>

lemma fse_frame:
  assumes "FixedSizeExcerpts_getitem ds len det key idx g = Inr (item', g')"
  shows "\<exists>item g1. getitem ds idx g = Inr (item, g1) \<and> (\<forall>k. k \<noteq> key \<longrightarrow> item' k = item k)"
  using assms
  by (auto simp: FixedSizeExcerpts_getitem_def split: sum.splits option.splits prod.splits if_splits)

lemma fse_schema:
  assumes "FixedSizeExcerpts ds len det key = Inr w"
  shows "dtypes w = dtypes ds \<and> (\<forall>k. k \<noteq> key \<longrightarrow> shapes w k = shapes ds k)
       \<and> (\<exists>s. shapes ds key = Some s \<and> shapes w key = Some (Some len # tl s))
       \<and> getitem w = FixedSizeExcerpts_getitem ds len det key"
  using assms by (auto simp: FixedSizeExcerpts_def split: option.splits)

lemma floatify_frame:
  assumes "Floatify_getitem to_float ds tr key idx g = Inr (item', g')"
  shows "\<exists>item g1. getitem ds idx g = Inr (item, g1) \<and> (\<forall>k. k \<noteq> key \<longrightarrow> item' k = item k)"
  using assms
  by (auto simp: Floatify_getitem_def Let_def split: sum.splits option.splits prod.splits if_splits)

lemma floatify_schema:
  assumes "Floatify to_float ds tr key = Inr w"
  shows "(\<forall>k. k \<noteq> key \<longrightarrow> shapes w k = shapes ds k \<and> dtypes w k = dtypes ds k)
       \<and> dtypes w key = Some np_float32
       \<and> (tr \<longrightarrow> (\<exists>s. shapes ds key = Some s \<and> shapes w key = Some (rev s)))
       \<and> (\<not> tr \<longrightarrow> shapes w key = shapes ds key)
       \<and> getitem w = Floatify_getitem to_float ds tr key"
  using assms by (auto simp: Floatify_def split: option.splits if_splits)

lemma downmix_frame:
  assumes "DownmixChannels_getitem ds key axis method idx g = Inr (item', g')"
  shows "\<exists>item g1. getitem ds idx g = Inr (item, g1) \<and> (\<forall>k. k \<noteq> key \<longrightarrow> item' k = item k)"
  using assms
  by (auto simp: DownmixChannels_getitem_def Let_def
      split: sum.splits option.splits prod.splits if_splits pyval.splits)

lemma downmix_schema_frame:
  assumes "DownmixChannels ds key axis method = Inr w"
  shows "dtypes w = dtypes ds \<and> (\<forall>k. k \<noteq> key \<longrightarrow> shapes w k = shapes ds k)
       \<and> getitem w = DownmixChannels_getitem ds key axis method"
  using assms by (auto simp: DownmixChannels_def split: option.splits)

lemma zero_labels_frame:
  "zero_labels ks item = Inr item' \<Longrightarrow> k \<notin> set ks \<Longrightarrow> item' k = item k"
proof (induction ks arbitrary: item)
  case Nil
  then show ?case by simp
next
  case (Cons k0 ks)
  from Cons.prems(1) obtain v where "zero_labels ks (item(k0 \<mapsto> v)) = Inr item'"
    by (auto split: option.splits)
  from Cons.IH[OF this] Cons.prems(2) show ?case by simp
qed

lemma mix_frame:
  assumes "MixBackgroundNoise_getitem ds nds cfg idx g = Inr (item', g')"
  shows "\<exists>item g1. getitem ds idx g = Inr (item, g1)
           \<and> (\<forall>k. k \<noteq> mix_key cfg \<and> k \<notin> set (label_keys cfg) \<longrightarrow> item' k = item k)"
proof -
  from assms obtain item g1 where up: "getitem ds idx g = Inr (item, g1)"
    by (auto simp: MixBackgroundNoise_getitem_def split: sum.splits)
  have "item' k = item k" if k: "k \<noteq> mix_key cfg" "k \<notin> set (label_keys cfg)" for k
  proof (cases "fires_noise_only cfg g1")
    case True
    with assms up obtain noise where "zero_labels (label_keys cfg) (item(mix_key cfg \<mapsto> noise)) = Inr item'"
      by (auto simp: MixBackgroundNoise_getitem_def fires_noise_only_def random_rand_def Let_def
          split: sum.splits prod.splits)
    from zero_labels_frame[OF this k(2)] k(1) show ?thesis by simp
  next
    case False
    show ?thesis
    proof (cases "fires_mix cfg (after_noise_only cfg g1)")
      case True
      with assms up False obtain mixed where "item' = item(mix_key cfg \<mapsto> mixed)"
        by (auto simp: MixBackgroundNoise_getitem_def fires_noise_only_def fires_mix_def
            after_noise_only_def random_rand_def Let_def
            split: sum.splits prod.splits option.splits if_splits)
      then show ?thesis using k(1) by simp
    next
      case nm: False
      with assms up False have "item' = item"
        by (auto simp: MixBackgroundNoise_getitem_def fires_noise_only_def fires_mix_def
            after_noise_only_def random_rand_def Let_def
            split: sum.splits prod.splits option.splits if_splits)
      then show ?thesis by simp
    qed
  qed
  with up show ?thesis by blast
qed

lemma mixup_frame:
  assumes "Mixup_getitem ds keys bkeys alpha idx g = Inr (item', g')"
  shows "\<exists>item1 g1 j g2 item2 g3.
           getitem ds idx g = Inr (item1, g1)
           \<and> random_randint (num_items ds) g1 = Inr (j, g2)
           \<and> getitem ds j g2 = Inr (item2, g3)
           \<and> (\<forall>k. k \<notin> set keys \<and> k \<notin> set bkeys \<longrightarrow>
                 item' k = (if g3 0 \<ge> 1 - g3 0 then item1 else item2) k)"
proof -
  from assms obtain item1 g1 j g2 item2 g3 where
    i1: "getitem ds idx g = Inr (item1, g1)"
    and j: "random_randint (num_items ds) g1 = Inr (j, g2)"
    and i2: "getitem ds j g2 = Inr (item2, g3)"
    by (auto simp: Mixup_getitem_def split: sum.splits prod.splits)
  from assms obtain blended where
    bl: "blend_keys keys (g3 0) (1 - g3 0) item1 item2
           (if g3 0 \<ge> 1 - g3 0 then item1 else item2) = Inr blended"
    and b: "binarize bkeys blended = Inr item'"
    unfolding Mixup_getitem_steps[OF i1 j i2] by (auto split: sum.splits)
  have "item' k = (if g3 0 \<ge> 1 - g3 0 then item1 else item2) k"
    if "k \<notin> set keys \<and> k \<notin> set bkeys" for k
    using binarize_result[OF b] blend_keys_frame[OF bl, of k] that by simp
  with i1 j i2 show ?thesis by blast
qed

lemma chain_getattr_forward:
  assumes "\<forall>own\<in>set wrappers. own attr = None"
  shows "chain_getattr wrappers leaf attr = chain_getattr [] leaf attr"
  using assms by (induction wrappers) (simp_all add: stage_getattr_def)

text \<open>
  Claim C3, as stated, fails for Mixup: a field outside the blend and binarize key sets
  need not be the field of the upstream item at the requested index. Requested is item 0
  with identifier \<^verbatim>\<open>a\<close>; the second draw is item 1 with the larger weight, and the
  returned identifier is \<^verbatim>\<open>b\<close>.
\<close>

theorem wrapping_counterexample:
  "result_field (getitem (the_dataset example_birdcalls) 0 (\<lambda>i. if i = 0 then 1 / 2 else 1 / 4))
       ''itemid''
     = Some (Str ''a'')
   \<and> result_field
       (getitem (Mixup (the_dataset example_birdcalls) [''input''] [] (3 / 10))
          0 (\<lambda>i. if i = 0 then 1 / 2 else 1 / 4)) ''itemid''
     = Some (Str ''b'')"
  by code_simp

text \<open>
  Claim C3, amended. FixedSizeExcerpts, Floatify and DownmixChannels declare the
  upstream's schema entry for every key but their own (FixedSizeExcerpts replaces only the
  first axis of its key's shape, and leaves all element types) and return the upstream
  item's value for every other field. MixBackgroundNoise and Mixup declare the upstream's
  schema unchanged; MixBackgroundNoise returns the upstream item's value for every field
  but its key and its label keys; Mixup returns, for every field outside its two key sets,
  the value of whichever of the two drawn items has the larger weight (the first on a
  tie). A name not found on a wrapper is looked up on its upstream, through any number of
  wrappers.
\<close>

theorem wrapping_invariant:
  "(FixedSizeExcerpts ds len det key = Inr w1 \<longrightarrow>
      dtypes w1 = dtypes ds
      \<and> (\<forall>k. k \<noteq> key \<longrightarrow> shapes w1 k = shapes ds k)
      \<and> (\<exists>s. shapes ds key = Some s \<and> shapes w1 key = Some (Some len # tl s))
      \<and> (\<forall>idx g item' g'. getitem w1 idx g = Inr (item', g') \<longrightarrow>
            (\<exists>item g1. getitem ds idx g = Inr (item, g1)
               \<and> (\<forall>k. k \<noteq> key \<longrightarrow> item' k = item k))))
   \<and> (Floatify to_float ds do_transpose key = Inr w2 \<longrightarrow>
      (\<forall>k. k \<noteq> key \<longrightarrow> shapes w2 k = shapes ds k \<and> dtypes w2 k = dtypes ds k)
      \<and> dtypes w2 key = Some np_float32
      \<and> (\<forall>idx g item' g'. getitem w2 idx g = Inr (item', g') \<longrightarrow>
            (\<exists>item g1. getitem ds idx g = Inr (item, g1)
               \<and> (\<forall>k. k \<noteq> key \<longrightarrow> item' k = item k))))
   \<and> (DownmixChannels ds key axis method = Inr w3 \<longrightarrow>
      dtypes w3 = dtypes ds
      \<and> (\<forall>k. k \<noteq> key \<longrightarrow> shapes w3 k = shapes ds k)
      \<and> (\<forall>idx g item' g'. getitem w3 idx g = Inr (item', g') \<longrightarrow>
            (\<exists>item g1. getitem ds idx g = Inr (item, g1)
               \<and> (\<forall>k. k \<noteq> key \<longrightarrow> item' k = item k))))
   \<and> (shapes (MixBackgroundNoise ds nds cfg) = shapes ds
      \<and> dtypes (MixBackgroundNoise ds nds cfg) = dtypes ds
      \<and> (\<forall>idx g item' g'. getitem (MixBackgroundNoise ds nds cfg) idx g = Inr (item', g') \<longrightarrow>
            (\<exists>item g1. getitem ds idx g = Inr (item, g1)
               \<and> (\<forall>k. k \<noteq> mix_key cfg \<and> k \<notin> set (label_keys cfg) \<longrightarrow> item' k = item k))))
   \<and> (shapes (Mixup ds keys bkeys alpha) = shapes ds
      \<and> dtypes (Mixup ds keys bkeys alpha) = dtypes ds
      \<and> (\<forall>idx g item' g'. getitem (Mixup ds keys bkeys alpha) idx g = Inr (item', g') \<longrightarrow>
            (\<exists>item1 g1 j g2 item2 g3.
               getitem ds idx g = Inr (item1, g1)
               \<and> random_randint (num_items ds) g1 = Inr (j, g2)
               \<and> getitem ds j g2 = Inr (item2, g3)
               \<and> (\<forall>k. k \<notin> set keys \<and> k \<notin> set bkeys \<longrightarrow>
                     item' k = (if g3 0 \<ge> 1 - g3 0 then item1 else item2) k))))
   \<and> (own attr = None \<longrightarrow> stage_getattr own upstream_getattr attr = upstream_getattr attr)
   \<and> ((\<forall>own\<in>set wrappers. own attr = None) \<longrightarrow>
        chain_getattr wrappers leaf attr = chain_getattr [] leaf attr)"
proof (intro conjI impI)
  assume h: "FixedSizeExcerpts ds len det key = Inr w1"
  from fse_schema[OF h] show "dtypes w1 = dtypes ds" by blast
  from fse_schema[OF h] show "\<forall>k. k \<noteq> key \<longrightarrow> shapes w1 k = shapes ds k" by blast
  from fse_schema[OF h] show "\<exists>s. shapes ds key = Some s \<and> shapes w1 key = Some (Some len # tl s)"
    by blast
  from fse_schema[OF h] have g: "getitem w1 = FixedSizeExcerpts_getitem ds len det key" by blast
  show "\<forall>idx g item' g'. getitem w1 idx g = Inr (item', g') \<longrightarrow>
            (\<exists>item g1. getitem ds idx g = Inr (item, g1)
               \<and> (\<forall>k. k \<noteq> key \<longrightarrow> item' k = item k))"
    unfolding g using fse_frame by blast
next
  assume h: "Floatify to_float ds do_transpose key = Inr w2"
  from floatify_schema[OF h]
  show "\<forall>k. k \<noteq> key \<longrightarrow> shapes w2 k = shapes ds k \<and> dtypes w2 k = dtypes ds k" by blast
  from floatify_schema[OF h] show "dtypes w2 key = Some np_float32" by blast
  from floatify_schema[OF h] have g: "getitem w2 = Floatify_getitem to_float ds do_transpose key"
    by blast
  show "\<forall>idx g item' g'. getitem w2 idx g = Inr (item', g') \<longrightarrow>
            (\<exists>item g1. getitem ds idx g = Inr (item, g1)
               \<and> (\<forall>k. k \<noteq> key \<longrightarrow> item' k = item k))"
    unfolding g using floatify_frame by blast
next
  assume h: "DownmixChannels ds key axis method = Inr w3"
  from downmix_schema_frame[OF h] show "dtypes w3 = dtypes ds" by blast
  from downmix_schema_frame[OF h] show "\<forall>k. k \<noteq> key \<longrightarrow> shapes w3 k = shapes ds k" by blast
  from downmix_schema_frame[OF h] have g: "getitem w3 = DownmixChannels_getitem ds key axis method"
    by blast
  show "\<forall>idx g item' g'. getitem w3 idx g = Inr (item', g') \<longrightarrow>
            (\<exists>item g1. getitem ds idx g = Inr (item, g1)
               \<and> (\<forall>k. k \<noteq> key \<longrightarrow> item' k = item k))"
    unfolding g using downmix_frame by blast
next
  show "shapes (MixBackgroundNoise ds nds cfg) = shapes ds" by (simp add: MixBackgroundNoise_def)
  show "dtypes (MixBackgroundNoise ds nds cfg) = dtypes ds" by (simp add: MixBackgroundNoise_def)
  have g: "getitem (MixBackgroundNoise ds nds cfg) = MixBackgroundNoise_getitem ds nds cfg"
    by (simp add: MixBackgroundNoise_def)
  show "\<forall>idx g item' g'. getitem (MixBackgroundNoise ds nds cfg) idx g = Inr (item', g') \<longrightarrow>
            (\<exists>item g1. getitem ds idx g = Inr (item, g1)
               \<and> (\<forall>k. k \<noteq> mix_key cfg \<and> k \<notin> set (label_keys cfg) \<longrightarrow> item' k = item k))"
    unfolding g using mix_frame by blast
next
  show "shapes (Mixup ds keys bkeys alpha) = shapes ds" by (simp add: Mixup_def)
  show "dtypes (Mixup ds keys bkeys alpha) = dtypes ds" by (simp add: Mixup_def)
  have g: "getitem (Mixup ds keys bkeys alpha) = Mixup_getitem ds keys bkeys alpha"
    by (simp add: Mixup_def)
  show "\<forall>idx g item' g'. getitem (Mixup ds keys bkeys alpha) idx g = Inr (item', g') \<longrightarrow>
            (\<exists>item1 g1 j g2 item2 g3.
               getitem ds idx g = Inr (item1, g1)
               \<and> random_randint (num_items ds) g1 = Inr (j, g2)
               \<and> getitem ds j g2 = Inr (item2, g3)
               \<and> (\<forall>k. k \<notin> set keys \<and> k \<notin> set bkeys \<longrightarrow>
                     item' k = (if g3 0 \<ge> 1 - g3 0 then item1 else item2) k))"
    unfolding g using mixup_frame by blast
next
  assume "own attr = None"
  then show "stage_getattr own upstream_getattr attr = upstream_getattr attr"
    by (simp add: stage_getattr_def)
next
  assume "\<forall>own\<in>set wrappers. own attr = None"
  then show "chain_getattr wrappers leaf attr = chain_getattr [] leaf attr"
    by (rule chain_getattr_forward)
qed

theorem wrapping_invariant_witness:
  "shapes (the_dataset (FixedSizeExcerpts (the_dataset example_birdcalls) 2 True ''input''))
       ''label_bg''
     = shapes (the_dataset example_birdcalls) ''label_bg''
   \<and> result_field
       (getitem (the_dataset (FixedSizeExcerpts (the_dataset example_birdcalls) 2 True ''input''))
          0 (\<lambda>i. 1 / 2)) ''itemid''
     = result_field (getitem (the_dataset example_birdcalls) 0 (\<lambda>i. 1 / 2)) ''itemid''
   \<and> (\<exists>j g2.
        result_field (getitem (Mixup (the_dataset example_birdcalls) [''input''] [] (3 / 10))
                        0 (\<lambda>i. 1 / 2)) ''itemid''
          = result_field (getitem (the_dataset example_birdcalls) 0 (\<lambda>i. 1 / 2)) ''itemid''
        \<or> result_field (getitem (Mixup (the_dataset example_birdcalls) [''input''] [] (3 / 10))
                        0 (\<lambda>i. 1 / 2)) ''itemid''
          = result_field (getitem (the_dataset example_birdcalls) j g2) ''itemid'')
   \<and> chain_getattr [Map.empty, [''length'' \<mapsto> 2]] [''sampler'' \<mapsto> 7] ''sampler'' = Inr (7 :: nat)"
proof -
  let ?ds = "the_dataset example_birdcalls"
  let ?w = "the_dataset (FixedSizeExcerpts ?ds 2 True ''input'')"
  let ?m = "Mixup ?ds [''input''] [] (3 / 10)"
  let ?g = "(\<lambda>i. 1 / 2) :: rng"
  note T = wrapping_invariant[where ds = ?ds and len = 2 and det = True and key = "''input''"
      and ?w1.0 = ?w and keys = "[''input'']" and bkeys = "[]" and alpha = "3 / 10"
      and wrappers = "[Map.empty, [''length'' \<mapsto> 2]]" and leaf = "[''sampler'' \<mapsto> (7 :: nat)]"
      and attr = "''sampler''"]
  have s: "shapes ?ds ''input'' = Some [Some 3]" by code_simp
  have c: "FixedSizeExcerpts ?ds 2 True ''input'' = Inr ?w"
    using s by (simp add: FixedSizeExcerpts_def the_dataset_def)
  note T1 = T[THEN conjunct1, THEN mp, OF c]
  note T5 = T[THEN conjunct2, THEN conjunct2, THEN conjunct2, THEN conjunct2, THEN conjunct1]
  note T7 = T[THEN conjunct2, THEN conjunct2, THEN conjunct2, THEN conjunct2, THEN conjunct2,
      THEN conjunct2]
  from T1 have sch: "\<forall>k. k \<noteq> ''input'' \<longrightarrow> shapes ?w k = shapes ?ds k" by blast
  from T1 have fr: "\<forall>idx g item' g'. getitem ?w idx g = Inr (item', g') \<longrightarrow>
            (\<exists>item g1. getitem ?ds idx g = Inr (item, g1)
               \<and> (\<forall>k. k \<noteq> ''input'' \<longrightarrow> item' k = item k))"
    by blast
  have ok1: "(case getitem ?w 0 ?g of Inl e \<Rightarrow> False | Inr r \<Rightarrow> True)" by code_simp
  then obtain item' g' where r1: "getitem ?w 0 ?g = Inr (item', g')"
    by (cases "getitem ?w 0 ?g") auto
  from fr[rule_format, OF r1] obtain item g1 where u1: "getitem ?ds 0 ?g = Inr (item, g1)"
    and e0: "\<forall>k. k \<noteq> ''input'' \<longrightarrow> item' k = item k"
    by (elim exE conjE)
  from e0 have e1: "item' ''itemid'' = item ''itemid''" by simp
  have a: "result_field (getitem ?w 0 ?g) ''itemid'' = result_field (getitem ?ds 0 ?g) ''itemid''"
    using r1 u1 e1 by (simp add: result_field_def)
  from T5 have mf: "\<forall>idx g item' g'. getitem ?m idx g = Inr (item', g') \<longrightarrow>
            (\<exists>item1 g1 j g2 item2 g3.
               getitem ?ds idx g = Inr (item1, g1)
               \<and> random_randint (num_items ?ds) g1 = Inr (j, g2)
               \<and> getitem ?ds j g2 = Inr (item2, g3)
               \<and> (\<forall>k. k \<notin> set [''input''] \<and> k \<notin> set [] \<longrightarrow>
                     item' k = (if g3 0 \<ge> 1 - g3 0 then item1 else item2) k))"
    by blast
  have ok2: "(case getitem ?m 0 ?g of Inl e \<Rightarrow> False | Inr r \<Rightarrow> True)" by code_simp
  then obtain item'' g'' where r2: "getitem ?m 0 ?g = Inr (item'', g'')"
    by (cases "getitem ?m 0 ?g") auto
  from mf[rule_format, OF r2] obtain item1 h1 j h2 item2 h3 where
    m1: "getitem ?ds 0 ?g = Inr (item1, h1)" and m2: "getitem ?ds j h2 = Inr (item2, h3)"
    and e3: "\<forall>k. k \<notin> set [''input''] \<and> k \<notin> set [] \<longrightarrow>
                     item'' k = (if h3 0 \<ge> 1 - h3 0 then item1 else item2) k"
    by (elim exE conjE)
  from e3 have e2: "item'' ''itemid'' = (if h3 0 \<ge> 1 - h3 0 then item1 else item2) ''itemid''"
    by simp
  have b: "result_field (getitem ?m 0 ?g) ''itemid'' = result_field (getitem ?ds 0 ?g) ''itemid''
         \<or> result_field (getitem ?m 0 ?g) ''itemid'' = result_field (getitem ?ds j h2) ''itemid''"
    using r2 m1 m2 e2 by (simp add: result_field_def)
  from T7 have "chain_getattr [Map.empty, [''length'' \<mapsto> 2]] [''sampler'' \<mapsto> (7 :: nat)] ''sampler''
                 = chain_getattr [] [''sampler'' \<mapsto> (7 :: nat)] ''sampler''"
    by simp
  then have d: "chain_getattr [Map.empty, [''length'' \<mapsto> 2]] [''sampler'' \<mapsto> 7] ''sampler''
                 = Inr (7 :: nat)"
    by simp
  from sch have sc: "shapes ?w ''label_bg'' = shapes ?ds ''label_bg''" by simp
  from b have b': "\<exists>j g2.
        result_field (getitem ?m 0 ?g) ''itemid'' = result_field (getitem ?ds 0 ?g) ''itemid''
        \<or> result_field (getitem ?m 0 ?g) ''itemid'' = result_field (getitem ?ds j g2) ''itemid''"
    by (intro exI)
  show ?thesis
    by (intro conjI) (rule sc, rule a, rule b', rule d)
qed

end
